theory Spec2Isabelle
  imports Main "HOL-Library.AList"
begin

unbundle bit_operations_syntax

section \<open>Errors\<close>

text \<open>
  Modelled from the spec: the module \<^verbatim>\<open>engine/error.py\<close> (the class \<^verbatim>\<open>ISAError\<close> and the
  enumeration \<^verbatim>\<open>ISAErrorCodes\<close>) is not among the sources; the error kinds are the seven the
  specification lists. An \<^verbatim>\<open>ISAError\<close> carries its code and the message the raising site gives it.
\<close>

datatype ISAErrorCodes =
  BAD_CONFIG | BAD_ARGS | BAD_INST | SEG_FAULT | ALLOC_FAIL | INVALID_SOURCE_FILE | UNKNOWN

text \<open>
  Everything the interpreter can raise in the modelled code: the engine's own \<^verbatim>\<open>ISAError\<close>, and the
  exceptions of the Python runtime (their messages are not kept).
\<close>

datatype exn =
  ISAError ISAErrorCodes string
  | ValueError
  | IndexError
  | KeyError
  | TypeError
  | OverflowError
  | ZeroDivisionError
  | HostError

section \<open>util.py: 32-bit arithmetic on unbounded integers\<close>

text \<open>
  Python integers are unbounded, so every value is an \<^typ>\<open>int\<close>; \<^verbatim>\<open>&\<close>, \<^verbatim>\<open>|\<close> and \<^verbatim>\<open>^\<close> are the
  two's-complement operations \<^term>\<open>(AND)\<close>, \<^term>\<open>(OR)\<close> and \<^term>\<open>(XOR)\<close> on \<^typ>\<open>int\<close>. The shifts
  \<^verbatim>\<open><<\<close> and \<^verbatim>\<open>>>\<close> raise \<^verbatim>\<open>ValueError\<close> on a negative count; \<^verbatim>\<open>>>\<close> rounds towards minus
  infinity. Exhausting the memory with a huge left shift is not modelled.
\<close>

definition UINT32_MAX :: int where
  "UINT32_MAX = push_bit 32 1 - 1"

definition INT32_MAX :: int where
  "INT32_MAX = push_bit 31 1 - 1"

definition py_lshift :: "int \<Rightarrow> int \<Rightarrow> exn + int" where
  "py_lshift a n = (if n < 0 then Inl ValueError else Inr (push_bit (nat n) a))"

definition py_rshift :: "int \<Rightarrow> int \<Rightarrow> exn + int" where
  "py_rshift a n = (if n < 0 then Inl ValueError else Inr (drop_bit (nat n) a))"

definition uint32_to_int32 :: "int \<Rightarrow> int" where
  "uint32_to_int32 u =
     (let sign_mask = INT32_MAX + 1; bit_mask = INT32_MAX
      in (u AND bit_mask) - (u AND sign_mask))"

definition to_u32 :: "int \<Rightarrow> int" where
  "to_u32 i = i AND UINT32_MAX"

definition not32 :: "int \<Rightarrow> int" where
  "not32 u = u XOR UINT32_MAX"

definition xor32 :: "int \<Rightarrow> int \<Rightarrow> int" where
  "xor32 u1 u2 = u1 XOR u2"

definition and32 :: "int \<Rightarrow> int \<Rightarrow> int" where
  "and32 u1 u2 = u1 AND u2"

definition or32 :: "int \<Rightarrow> int \<Rightarrow> int" where
  "or32 u1 u2 = u1 OR u2"

definition sal32 :: "int \<Rightarrow> int \<Rightarrow> exn + int" where
  "sal32 u1 u2 = (case py_lshift u1 u2 of Inl e \<Rightarrow> Inl e | Inr x \<Rightarrow> Inr (x AND UINT32_MAX))"

definition sar32 :: "int \<Rightarrow> int \<Rightarrow> exn + int" where
  "sar32 u1 u2 =
     (case py_rshift (uint32_to_int32 u1) u2 of Inl e \<Rightarrow> Inl e | Inr x \<Rightarrow> Inr (x AND UINT32_MAX))"

definition shl32 :: "int \<Rightarrow> int \<Rightarrow> exn + int" where
  "shl32 u1 u2 = (case py_lshift u1 u2 of Inl e \<Rightarrow> Inl e | Inr x \<Rightarrow> Inr (x AND UINT32_MAX))"

definition shr32 :: "int \<Rightarrow> int \<Rightarrow> exn + int" where
  "shr32 u1 u2 = py_rshift u1 u2"

text \<open>
  \<^verbatim>\<open>rol32\<close> and \<^verbatim>\<open>ror32\<close> call themselves once with the count reduced modulo 32 when it is 32 or
  more; the reduced count is below 32, so the recursion is one level deep.
\<close>

function rol32 :: "int \<Rightarrow> int \<Rightarrow> exn + int" where
  "rol32 u1 u2 =
     (if u2 \<ge> 32 then rol32 u1 (u2 mod 32)
      else if u2 = 0 then Inr u1
      else (case shl32 u1 u2 of Inl e \<Rightarrow> Inl e
            | Inr a \<Rightarrow> (case shr32 u1 (32 - u2) of Inl e \<Rightarrow> Inl e | Inr b \<Rightarrow> Inr (a + b))))"
  by pat_completeness auto
termination
  by (relation "measure (\<lambda>(u1, u2). if u2 \<ge> 32 then 1 else 0)") auto

function ror32 :: "int \<Rightarrow> int \<Rightarrow> exn + int" where
  "ror32 u1 u2 =
     (if u2 \<ge> 32 then ror32 u1 (u2 mod 32)
      else if u2 = 0 then Inr u1
      else (case shr32 u1 u2 of Inl e \<Rightarrow> Inl e
            | Inr a \<Rightarrow> (case shl32 u1 (32 - u2) of Inl e \<Rightarrow> Inl e | Inr b \<Rightarrow> Inr (a + b))))"
  by pat_completeness auto
termination
  by (relation "measure (\<lambda>(u1, u2). if u2 \<ge> 32 then 1 else 0)") auto

definition add32 :: "int \<Rightarrow> int \<Rightarrow> int" where
  "add32 u1 u2 = (u1 + u2) AND UINT32_MAX"

definition sub32 :: "int \<Rightarrow> int \<Rightarrow> int" where
  "sub32 u1 u2 = (u1 - u2) AND UINT32_MAX"

definition mul32 :: "int \<Rightarrow> int \<Rightarrow> int \<times> int" where
  "mul32 u1 u2 = ((u1 * u2) AND UINT32_MAX, (u1 * u2) div (UINT32_MAX + 1))"

definition div32 :: "int \<Rightarrow> int \<Rightarrow> exn + int \<times> int" where
  "div32 u1 u2 =
     (if u2 = 0 then Inl ZeroDivisionError
      else Inr ((u1 div u2) AND UINT32_MAX, u1 mod u2))"

definition eq32 :: "int \<Rightarrow> int \<Rightarrow> bool" where
  "eq32 u1 u2 = (u1 = u2)"

definition neq32 :: "int \<Rightarrow> int \<Rightarrow> bool" where
  "neq32 u1 u2 = (u1 \<noteq> u2)"

definition gt32 :: "int \<Rightarrow> int \<Rightarrow> bool" where
  "gt32 u1 u2 = (uint32_to_int32 u1 > uint32_to_int32 u2)"

definition gtu32 :: "int \<Rightarrow> int \<Rightarrow> bool" where
  "gtu32 u1 u2 = (u1 > u2)"

definition gte32 :: "int \<Rightarrow> int \<Rightarrow> bool" where
  "gte32 u1 u2 = (uint32_to_int32 u1 \<ge> uint32_to_int32 u2)"

definition gteu32 :: "int \<Rightarrow> int \<Rightarrow> bool" where
  "gteu32 u1 u2 = (u1 \<ge> u2)"

definition lt32 :: "int \<Rightarrow> int \<Rightarrow> bool" where
  "lt32 u1 u2 = (uint32_to_int32 u1 < uint32_to_int32 u2)"

definition ltu32 :: "int \<Rightarrow> int \<Rightarrow> bool" where
  "ltu32 u1 u2 = (u1 < u2)"

definition lte32 :: "int \<Rightarrow> int \<Rightarrow> bool" where
  "lte32 u1 u2 = (uint32_to_int32 u1 \<le> uint32_to_int32 u2)"

definition lteu32 :: "int \<Rightarrow> int \<Rightarrow> bool" where
  "lteu32 u1 u2 = (u1 \<le> u2)"

definition range_collide :: "int \<Rightarrow> int \<Rightarrow> int \<Rightarrow> int \<Rightarrow> bool" where
  "range_collide s1 e1 s2 e2 = ((s1 \<ge> s2 \<and> s1 < e2) \<or> (s2 \<ge> s1 \<and> s2 < e1))"

section \<open>Byte strings\<close>

text \<open>
  A Python \<^verbatim>\<open>bytes\<close> value is a \<^typ>\<open>string\<close>: a list of 8-bit characters. A \<^verbatim>\<open>bytearray\<close> of a
  fixed length \<open>n\<close> (the buffer behind a segment's \<^verbatim>\<open>memoryview\<close>, which cannot be resized) is a
  function from the indices below \<open>n\<close> to bytes, together with \<open>n\<close>.
\<close>

type_synonym buffer = "nat \<Rightarrow> char"

text \<open>
  The bounds of a slice \<^verbatim>\<open>[start:stop]\<close> of a sequence of length \<open>n\<close>: a negative bound
  counts from the end, and both are clipped to \<open>0..n\<close>. The slice holds the indices from the
  first bound up to, not including, the second.
\<close>

definition clip_index :: "nat \<Rightarrow> int \<Rightarrow> nat" where
  "clip_index n i =
     (if i < 0 then (if i + int n < 0 then 0 else nat (i + int n))
      else if i \<ge> int n then n else nat i)"

definition slice_bounds :: "nat \<Rightarrow> int option \<Rightarrow> int option \<Rightarrow> nat \<times> nat" where
  "slice_bounds n start stop =
     ((case start of None \<Rightarrow> 0 | Some i \<Rightarrow> clip_index n i),
      (case stop of None \<Rightarrow> n | Some j \<Rightarrow> clip_index n j))"

text \<open>Reading a slice copies the bytes between the bounds.\<close>

definition read_slice :: "buffer \<Rightarrow> nat \<Rightarrow> int option \<Rightarrow> int option \<Rightarrow> string" where
  "read_slice m n start stop = (case slice_bounds n start stop of (lo, hi) \<Rightarrow> map m [lo..<hi])"

definition write_bytes :: "buffer \<Rightarrow> nat \<Rightarrow> string \<Rightarrow> buffer" where
  "write_bytes m lo data = (\<lambda>i. if lo \<le> i \<and> i < lo + length data then data ! (i - lo) else m i)"

text \<open>
  Assigning to a slice of a \<^verbatim>\<open>memoryview\<close> cannot change its length: the value must have as
  many bytes as the slice, or the assignment raises \<^verbatim>\<open>ValueError\<close>.
\<close>

definition write_slice :: "buffer \<Rightarrow> nat \<Rightarrow> int option \<Rightarrow> int option \<Rightarrow> string \<Rightarrow> exn + buffer" where
  "write_slice m n start stop data =
     (case slice_bounds n start stop of (lo, hi) \<Rightarrow>
        if length data = hi - lo then Inr (write_bytes m lo data) else Inl ValueError)"

text \<open>
  A slice with a step, \<^verbatim>\<open>[start:stop:k]\<close>. A step of 0 raises \<^verbatim>\<open>ValueError\<close>. Otherwise the bounds
  are adjusted as the interpreter does it (a missing bound is the far end in the direction of
  the step; a negative bound counts from the end; both are clipped, to \<open>0..n\<close> for a positive
  step and to \<open>-1..n-1\<close> for a negative one), and the slice holds the indices \<open>lo\<close>,
  \<open>lo + k\<close>, \<open>lo + 2k\<close>, ... before the second bound. Reading copies the bytes at these
  indices; writing needs as many bytes as there are indices and stores them one by one.
\<close>

definition adjust_index :: "nat \<Rightarrow> int \<Rightarrow> int \<Rightarrow> int" where
  "adjust_index n k i =
     (if i < 0 then (if i + int n < 0 then (if k < 0 then - 1 else 0) else i + int n)
      else if i \<ge> int n then (if k < 0 then int n - 1 else int n)
      else i)"

definition strided_indices :: "nat \<Rightarrow> int option \<Rightarrow> int option \<Rightarrow> int \<Rightarrow> nat list" where
  "strided_indices n start stop k =
     (let lo = (case start of None \<Rightarrow> (if k < 0 then int n - 1 else 0)
                | Some i \<Rightarrow> adjust_index n k i);
          hi = (case stop of None \<Rightarrow> (if k < 0 then - 1 else int n)
                | Some j \<Rightarrow> adjust_index n k j);
          cnt = (if k < 0 then (if hi < lo then (lo - hi - 1) div (- k) + 1 else 0)
                 else (if lo < hi then (hi - lo - 1) div k + 1 else 0))
      in map (\<lambda>j. nat (lo + int j * k)) [0..<nat cnt])"

definition store :: "buffer \<Rightarrow> nat list \<Rightarrow> string \<Rightarrow> buffer" where
  "store m idx data = fold (\<lambda>(i, c) f. f(i := c)) (zip idx data) m"

definition read_strided :: "buffer \<Rightarrow> nat \<Rightarrow> int option \<Rightarrow> int option \<Rightarrow> int \<Rightarrow> exn + string" where
  "read_strided m n start stop k =
     (if k = 0 then Inl ValueError else Inr (map m (strided_indices n start stop k)))"

definition write_strided ::
  "buffer \<Rightarrow> nat \<Rightarrow> int option \<Rightarrow> int option \<Rightarrow> int \<Rightarrow> string \<Rightarrow> exn + buffer" where
  "write_strided m n start stop k data =
     (if k = 0 then Inl ValueError
      else if length data = length (strided_indices n start stop k)
        then Inr (store m (strided_indices n start stop k) data)
      else Inl ValueError)"

text \<open>
  \<^verbatim>\<open>bytearray.find(sub, start, end)\<close>: the lowest index \<open>i\<close> with \<open>start \<le> i\<close> and
  \<open>i + len(sub) \<le> end\<close> at which \<open>sub\<close> occurs, or \<open>-1\<close>. A negative bound counts from the end
  (and is raised to 0), \<open>end\<close> is lowered to the length, and \<open>start\<close> is not: a start beyond the
  end finds nothing.
\<close>

function find_from :: "buffer \<Rightarrow> string \<Rightarrow> nat \<Rightarrow> nat \<Rightarrow> int" where
  "find_from m sub i e =
     (if e < i + length sub then - 1
      else if map m [i..<i + length sub] = sub then int i
      else find_from m sub (Suc i) e)"
  by pat_completeness auto
termination
proof (relation "measure (\<lambda>(m, sub, i, e). e - i)")
  show "wf (measure (\<lambda>(m, sub, i, e). e - i))" by simp
next
  fix m :: buffer and sub :: string and i e :: nat
  assume a: "\<not> e < i + length sub" and b: "map m [i..<i + length sub] \<noteq> sub"
  from b have "sub \<noteq> []" by auto
  with a have "i < e" by (cases sub) auto
  then show "((m, sub, Suc i, e), (m, sub, i, e)) \<in> measure (\<lambda>(m, sub, i, e). e - i)"
    by simp
qed

definition bytes_find :: "buffer \<Rightarrow> nat \<Rightarrow> string \<Rightarrow> int option \<Rightarrow> int option \<Rightarrow> int" where
  "bytes_find m n sub start endp =
     (let e = (case endp of None \<Rightarrow> int n
               | Some j \<Rightarrow> if j > int n then int n
                           else if j < 0 then (if j + int n < 0 then 0 else j + int n) else j);
          s = (case start of None \<Rightarrow> 0
               | Some i \<Rightarrow> if i < 0 then (if i + int n < 0 then 0 else i + int n) else i)
      in if e - s < int (length sub) then - 1 else find_from m sub (nat s) (nat e))"

text \<open>\<^verbatim>\<open>int.from_bytes(b, "little")\<close> and \<^verbatim>\<open>u.to_bytes(4, "little")\<close>.\<close>

definition bytes_to_uint32 :: "string \<Rightarrow> int" where
  "bytes_to_uint32 b = foldr (\<lambda>c acc. of_char c + 256 * acc) b 0"

definition uint32_to_bytes :: "int \<Rightarrow> exn + string" where
  "uint32_to_bytes u =
     (if u < 0 \<or> u \<ge> 4294967296 then Inl OverflowError
      else Inr (map (\<lambda>k. char_of (u div 256 ^ k)) [0..<4]))"

section \<open>segment.py\<close>

definition READ :: int where "READ = 4"
definition WRITE :: int where "WRITE = 2"
definition EXEC :: int where "EXEC = 1"

definition SegmentPermission :: "int \<Rightarrow> exn + int" where
  "SegmentPermission permission =
     (if permission div 8 \<noteq> 0 then Inl (ISAError BAD_ARGS ''Invalid permission'')
      else Inr permission)"

text \<open>
  A segment. Its \<^verbatim>\<open>end\<close> attribute is set once, to \<^verbatim>\<open>start + size\<close>, and never assigned again,
  so it is a function of the two.
\<close>

record Segment =
  seg_name :: string
  seg_start :: int
  seg_size :: nat
  seg_mem :: buffer
  seg_permission :: int

definition seg_end :: "Segment \<Rightarrow> int" where
  "seg_end s = seg_start s + int (seg_size s)"

definition readable :: "Segment \<Rightarrow> bool" where
  "readable s = (seg_permission s AND READ = READ)"

definition writable :: "Segment \<Rightarrow> bool" where
  "writable s = (seg_permission s AND WRITE = WRITE)"

definition executable :: "Segment \<Rightarrow> bool" where
  "executable s = (seg_permission s AND EXEC = EXEC)"

text \<open>
  The constructor: \<^verbatim>\<open>bytearray(size)\<close> raises on a negative size, the permission is checked
  next, and the initial data is stored last (it must fit).
\<close>

definition Segment_init :: "string \<Rightarrow> int \<Rightarrow> int \<Rightarrow> string \<Rightarrow> int \<Rightarrow> exn + Segment" where
  "Segment_init name start sz init_data permission_flag =
     (if sz < 0 then Inl ValueError
      else case SegmentPermission permission_flag of
        Inl e \<Rightarrow> Inl e
      | Inr p \<Rightarrow>
          (case write_slice (\<lambda>_. CHR 0x00) (nat sz) None (Some (int (length init_data))) init_data of
             Inl e \<Rightarrow> Inl e
           | Inr m \<Rightarrow>
               Inr \<lparr>seg_name = name, seg_start = start, seg_size = nat sz, seg_mem = m,
                    seg_permission = p\<rparr>))"

text \<open>
  \<^verbatim>\<open>__getitem__\<close> and \<^verbatim>\<open>__setitem__\<close>, by the kind of key: an integer (an absolute address; a
  negative index into the buffer counts from its end), a slice \<^verbatim>\<open>[start:stop]\<close> (all the slices
  the engine builds), or a slice with a step \<^verbatim>\<open>[start:stop:k]\<close> (the functions named
  \<open>_step\<close>). A slice whose start is an integer has both bounds made relative to the segment's
  start; a slice whose start is \<^verbatim>\<open>None\<close> is passed to the buffer as it is. A slice read gives a
  view of the buffer, which every caller turns into bytes at once: the model copies.
\<close>

definition buffer_index :: "nat \<Rightarrow> int \<Rightarrow> exn + nat" where
  "buffer_index n i =
     (let j = (if i < 0 then i + int n else i)
      in if 0 \<le> j \<and> j < int n then Inr (nat j) else Inl IndexError)"

definition Segment_getitem :: "Segment \<Rightarrow> int \<Rightarrow> exn + char" where
  "Segment_getitem s key =
     (if \<not> readable s then Inl (ISAError SEG_FAULT ''segment is not readable'')
      else case buffer_index (seg_size s) (key - seg_start s) of
        Inl e \<Rightarrow> Inl e
      | Inr j \<Rightarrow> Inr (seg_mem s j))"

definition relative :: "Segment \<Rightarrow> int option \<Rightarrow> int option \<Rightarrow> int option \<times> int option" where
  "relative s start stop =
     (case start of
        Some i \<Rightarrow> (Some (i - seg_start s), map_option (\<lambda>j. j - seg_start s) stop)
      | None \<Rightarrow> (None, stop))"

definition Segment_getslice :: "Segment \<Rightarrow> int option \<Rightarrow> int option \<Rightarrow> exn + string" where
  "Segment_getslice s start stop =
     (if \<not> readable s then Inl (ISAError SEG_FAULT ''segment is not readable'')
      else case relative s start stop of
        (start', stop') \<Rightarrow> Inr (read_slice (seg_mem s) (seg_size s) start' stop'))"

definition Segment_setitem :: "Segment \<Rightarrow> int \<Rightarrow> char \<Rightarrow> exn + Segment" where
  "Segment_setitem s key v =
     (if \<not> writable s then Inl (ISAError SEG_FAULT ''segment is not writable'')
      else case buffer_index (seg_size s) (key - seg_start s) of
        Inl e \<Rightarrow> Inl e
      | Inr j \<Rightarrow> Inr (s\<lparr>seg_mem := (seg_mem s)(j := v)\<rparr>))"

definition Segment_setslice :: "Segment \<Rightarrow> int option \<Rightarrow> int option \<Rightarrow> string \<Rightarrow> exn + Segment" where
  "Segment_setslice s start stop data =
     (if \<not> writable s then Inl (ISAError SEG_FAULT ''segment is not writable'')
      else case relative s start stop of
        (start', stop') \<Rightarrow>
          (case write_slice (seg_mem s) (seg_size s) start' stop' data of
             Inl e \<Rightarrow> Inl e
           | Inr m \<Rightarrow> Inr (s\<lparr>seg_mem := m\<rparr>)))"



text \<open>
  \<^verbatim>\<open>find\<close>: the bounds are made relative, the buffer is searched, and the segment's start is
  added to whatever the search returns.
\<close>

definition Segment_find :: "Segment \<Rightarrow> string \<Rightarrow> int option \<Rightarrow> int option \<Rightarrow> int" where
  "Segment_find s sub start endp =
     bytes_find (seg_mem s) (seg_size s) sub
       (map_option (\<lambda>i. i - seg_start s) start) (map_option (\<lambda>j. j - seg_start s) endp)
     + seg_start s"

section \<open>memory\_manager.py\<close>

text \<open>
  The segments are a dictionary from names to segments, kept in insertion order (the order in
  which \<^verbatim>\<open>find_segment_by_addr\<close> visits them).
\<close>

type_synonym MemoryManager = "(string \<times> Segment) list"

fun find_segment_by_addr :: "MemoryManager \<Rightarrow> int \<Rightarrow> exn + Segment" where
  "find_segment_by_addr [] addr = Inl (ISAError SEG_FAULT ''cannot access memory address'')"
| "find_segment_by_addr ((k, segment) # rest) addr =
     (if addr \<ge> seg_start segment \<and> addr < seg_end segment then Inr segment
      else find_segment_by_addr rest addr)"

text \<open>
  A segment found by address is an object of the dictionary: a write to it is a write to the
  dictionary's entry. \<open>write_back\<close> stores the changed segment in the entry it was found at.
\<close>

fun write_back :: "MemoryManager \<Rightarrow> int \<Rightarrow> Segment \<Rightarrow> MemoryManager" where
  "write_back [] addr s' = []"
| "write_back ((k, segment) # rest) addr s' =
     (if addr \<ge> seg_start segment \<and> addr < seg_end segment then (k, s') # rest
      else (k, segment) # write_back rest addr s')"

definition MemoryManager_getitem :: "MemoryManager \<Rightarrow> int \<Rightarrow> exn + char" where
  "MemoryManager_getitem mm key =
     (case find_segment_by_addr mm key of Inl e \<Rightarrow> Inl e | Inr segment \<Rightarrow> Segment_getitem segment key)"

text \<open>A slice key needs an integer start; anything else is a \<^verbatim>\<open>TypeError\<close>.\<close>

definition MemoryManager_getslice :: "MemoryManager \<Rightarrow> int option \<Rightarrow> int option \<Rightarrow> exn + string" where
  "MemoryManager_getslice mm start stop =
     (case start of
        None \<Rightarrow> Inl TypeError
      | Some a \<Rightarrow>
          (case find_segment_by_addr mm a of
             Inl e \<Rightarrow> Inl e
           | Inr segment \<Rightarrow> Segment_getslice segment start stop))"

definition MemoryManager_setitem :: "MemoryManager \<Rightarrow> int \<Rightarrow> char \<Rightarrow> exn + MemoryManager" where
  "MemoryManager_setitem mm key v =
     (case find_segment_by_addr mm key of
        Inl e \<Rightarrow> Inl e
      | Inr segment \<Rightarrow>
          (case Segment_setitem segment key v of
             Inl e \<Rightarrow> Inl e
           | Inr s' \<Rightarrow> Inr (write_back mm key s')))"

definition MemoryManager_setslice ::
  "MemoryManager \<Rightarrow> int option \<Rightarrow> int option \<Rightarrow> string \<Rightarrow> exn + MemoryManager" where
  "MemoryManager_setslice mm start stop data =
     (case start of
        None \<Rightarrow> Inl TypeError
      | Some a \<Rightarrow>
          (case find_segment_by_addr mm a of
             Inl e \<Rightarrow> Inl e
           | Inr segment \<Rightarrow>
               (case Segment_setslice segment start stop data of
                  Inl e \<Rightarrow> Inl e
                | Inr s' \<Rightarrow> Inr (write_back mm a s'))))"



text \<open>
  \<^verbatim>\<open>map\<close>: the new range is compared with every segment already mapped; the segment is then
  built and stored under its name (replacing, in place, a segment of the same name).
\<close>

definition map_segment ::
  "MemoryManager \<Rightarrow> string \<Rightarrow> int \<Rightarrow> int \<Rightarrow> int \<Rightarrow> string \<Rightarrow> exn + MemoryManager" where
  "map_segment mm name start sz permission_flag init_data =
     (if list_ex (\<lambda>(k, segment). range_collide start (start + sz) (seg_start segment) (seg_end segment)) mm
      then Inl (ISAError ALLOC_FAIL ''allocate segment failed'')
      else case Segment_init name start sz init_data permission_flag of
        Inl e \<Rightarrow> Inl e
      | Inr segment \<Rightarrow> Inr (AList.update name segment mm))"

definition munmap :: "MemoryManager \<Rightarrow> int + string \<Rightarrow> exn + MemoryManager" where
  "munmap mm addr_or_name =
     (case (case addr_or_name of
              Inl addr \<Rightarrow> (case find_segment_by_addr mm addr of Inl e \<Rightarrow> Inl e | Inr s \<Rightarrow> Inr (seg_name s))
            | Inr name \<Rightarrow> Inr name) of
        Inl e \<Rightarrow> Inl e
      | Inr segment_name \<Rightarrow>
          (case map_of mm segment_name of
             None \<Rightarrow> Inl KeyError
           | Some _ \<Rightarrow> Inr (AList.delete segment_name mm)))"

text \<open>
  \<^verbatim>\<open>set32\<close> builds the four bytes first (\<^verbatim>\<open>OverflowError\<close> when the value is not a 32-bit one),
  then assigns them to the slice \<^verbatim>\<open>[addr : addr + 4]\<close>; \<^verbatim>\<open>get32\<close> reads that slice and converts
  whatever bytes it holds.
\<close>

definition set32 :: "MemoryManager \<Rightarrow> int \<Rightarrow> int \<Rightarrow> exn + MemoryManager" where
  "set32 mm addr v =
     (let addr = to_u32 addr
      in case uint32_to_bytes v of
           Inl e \<Rightarrow> Inl e
         | Inr b \<Rightarrow> MemoryManager_setslice mm (Some addr) (Some (addr + 4)) b)"

definition get32 :: "MemoryManager \<Rightarrow> int \<Rightarrow> exn + int" where
  "get32 mm addr =
     (let addr = to_u32 addr
      in case MemoryManager_getslice mm (Some addr) (Some (addr + 4)) of
           Inl e \<Rightarrow> Inl e
         | Inr b \<Rightarrow> Inr (bytes_to_uint32 b))"

definition get_cstring :: "MemoryManager \<Rightarrow> int \<Rightarrow> exn + string" where
  "get_cstring mm addr =
     (case find_segment_by_addr mm addr of
        Inl e \<Rightarrow> Inl e
      | Inr segment \<Rightarrow>
          (let csting_end = Segment_find segment [CHR 0x00] (Some addr) None;
               csting_end = (if csting_end = - 1 then seg_start segment + int (seg_size segment)
                             else csting_end)
           in Segment_getslice segment (Some addr) (Some csting_end)))"

section \<open>const.py\<close>

definition PROGRAM_COUNTER_REG_NAME :: string where "PROGRAM_COUNTER_REG_NAME = ''PC''"
definition BASE_POINTER_REG_NAME :: string where "BASE_POINTER_REG_NAME = ''FP''"
definition STACK_POINTER_REG_NAME :: string where "STACK_POINTER_REG_NAME = ''SP''"

definition MNEMONIC :: "string list" where
  "MNEMONIC =
     [''JMP'', ''JZ'', ''JNZ'', ''MOV'', ''NOT'', ''AND'', ''OR'', ''XOR'', ''SAL'', ''SAR'',
      ''SHL'', ''SHR'', ''ROL'', ''ROR'', ''ADD'', ''SUB'', ''MULu'', ''MUL'', ''DIVu'', ''DIV'',
      ''EQ'', ''NEQ'', ''GT'', ''GTu'', ''GTE'', ''GTEu'', ''LT'', ''LTu'', ''LTE'', ''LTEu'',
      ''CALL'', ''RET'', ''SYSCALL'', ''PUSH'', ''POP'', ''SWAP'', ''COPY'', ''NOP'']"

definition REGISTERS :: "string list" where
  "REGISTERS =
     [''R1'', ''R2'', ''R3'', ''R4'', ''R5'', ''R6'', ''R7'', ''R8'',
      PROGRAM_COUNTER_REG_NAME, BASE_POINTER_REG_NAME, STACK_POINTER_REG_NAME]"

definition INST_DELIMITER :: string where "INST_DELIMITER = ''\<newline>''"
definition INST_MNEMONIC_SEPARATOR :: char where "INST_MNEMONIC_SEPARATOR = CHR '' ''"
definition INST_OPERANDS_SEPARATOR :: char where "INST_OPERANDS_SEPARATOR = CHR '',''"

definition FILE_SIZE_LIMIT :: int where "FILE_SIZE_LIMIT = 65536"

text \<open>The table \<^verbatim>\<open>SEGMENTS\<close>: start, size and permission of the three segments.\<close>

definition code_start :: int where "code_start = 4194304"
definition code_size :: int where "code_size = 1048576"
definition code_permission :: int where "code_permission = READ OR EXEC"
definition bss_start :: int where "bss_start = 5242880"
definition bss_size :: int where "bss_size = 65536"
definition bss_permission :: int where "bss_permission = READ OR WRITE"
definition stack_start :: int where "stack_start = 4293918720"
definition stack_size :: int where "stack_size = 1048576"
definition stack_permission :: int where "stack_permission = READ OR WRITE"

section \<open>Text to numbers: Python's \<^verbatim>\<open>int(text, base)\<close>\<close>

text \<open>
  \<^verbatim>\<open>int\<close> on a byte string, for the bases the engine uses (10, and 0 for a literal with an
  optional prefix \<^verbatim>\<open>0x\<close>, \<^verbatim>\<open>0o\<close> or \<^verbatim>\<open>0b\<close>): white space around the number is skipped, one sign
  is allowed, single underscores may separate digits, and in base 0 a decimal number other than
  zero must not start with \<^verbatim>\<open>0\<close>. Anything else raises \<^verbatim>\<open>ValueError\<close>. The interpreter's limit
  on the number of decimal digits is not modelled.
\<close>

definition is_space :: "char \<Rightarrow> bool" where
  "is_space c = (c \<in> set [CHR 0x20, CHR 0x09, CHR 0x0A, CHR 0x0B, CHR 0x0C, CHR 0x0D])"

definition strip :: "string \<Rightarrow> string" where
  "strip s = rev (dropWhile is_space (rev (dropWhile is_space s)))"

definition digit_value :: "char \<Rightarrow> nat" where
  "digit_value c =
     (let n = of_char c :: nat
      in if 48 \<le> n \<and> n \<le> 57 then n - 48
         else if 97 \<le> n \<and> n \<le> 122 then n - 87
         else if 65 \<le> n \<and> n \<le> 90 then n - 55
         else 37)"

text \<open>
  The digits are scanned with the previous character at hand: two underscores in a row end
  the scan with an error (\<open>None\<close>); otherwise the scan returns the number read, the last
  character read and the text that is left.
\<close>

fun scan_digits :: "nat \<Rightarrow> string \<Rightarrow> char \<Rightarrow> int \<Rightarrow> (int \<times> char \<times> string) option" where
  "scan_digits base [] prev acc = Some (acc, prev, [])"
| "scan_digits base (c # cs) prev acc =
     (if c = CHR ''_'' then (if prev = CHR ''_'' then None else scan_digits base cs c acc)
      else if digit_value c < base
        then scan_digits base cs c (acc * int base + int (digit_value c))
      else Some (acc, prev, c # cs))"

definition has_prefix :: "string \<Rightarrow> char \<Rightarrow> char \<Rightarrow> bool" where
  "has_prefix s lower upper =
     (case s of c0 # c1 # _ \<Rightarrow> c0 = CHR ''0'' \<and> (c1 = lower \<or> c1 = upper) | _ \<Rightarrow> False)"

definition py_int :: "string \<Rightarrow> nat \<Rightarrow> exn + int" where
  "py_int text base =
     (let s1 = dropWhile is_space text;
          sign = (case s1 of c # _ \<Rightarrow> if c = CHR ''-'' then - 1 else (1::int) | [] \<Rightarrow> 1);
          s2 = (case s1 of c # r \<Rightarrow> if c = CHR ''+'' \<or> c = CHR ''-'' then r else s1 | [] \<Rightarrow> s1);
          old_octal = (base = 0 \<and> take 1 s2 = ''0'' \<and> \<not> has_prefix s2 (CHR ''x'') (CHR ''X'')
                       \<and> \<not> has_prefix s2 (CHR ''o'') (CHR ''O'')
                       \<and> \<not> has_prefix s2 (CHR ''b'') (CHR ''B''));
          b = (if base \<noteq> 0 then base
               else if has_prefix s2 (CHR ''x'') (CHR ''X'') then 16
               else if has_prefix s2 (CHR ''o'') (CHR ''O'') then 8
               else if has_prefix s2 (CHR ''b'') (CHR ''B'') then 2
               else 10);
          prefixed = ((b = 16 \<and> has_prefix s2 (CHR ''x'') (CHR ''X''))
                      \<or> (b = 8 \<and> has_prefix s2 (CHR ''o'') (CHR ''O''))
                      \<or> (b = 2 \<and> has_prefix s2 (CHR ''b'') (CHR ''B'')));
          s3 = (if prefixed
                then (let r = drop 2 s2 in if take 1 r = ''_'' then drop 1 r else r)
                else s2)
      in if take 1 s3 = ''_'' then Inl ValueError
         else case scan_digits b s3 (CHR 0x00) 0 of
           None \<Rightarrow> Inl ValueError
         | Some (z, prev, rest) \<Rightarrow>
             if prev = CHR ''_'' then Inl ValueError
             else if old_octal \<and> z \<noteq> 0 then Inl ValueError
             else if rest = s3 then Inl ValueError
             else if dropWhile is_space rest \<noteq> [] then Inl ValueError
             else Inr (sign * z))"

section \<open>register.py and operand.py\<close>

datatype OperandType = REGISTER | ADDRESS | IMMEDIATE

record Operand =
  op_type :: OperandType
  op_data :: string

text \<open>A slice \<^verbatim>\<open>[start:stop]\<close> of a byte string.\<close>

definition bytes_slice :: "string \<Rightarrow> int option \<Rightarrow> int option \<Rightarrow> string" where
  "bytes_slice s start stop =
     (case slice_bounds (length s) start stop of (lo, hi) \<Rightarrow> take (hi - lo) (drop lo s))"

text \<open>
  The constructor of an operand classifies the text: a register name, a bracketed address
  expression (stored without the brackets), or a number that \<^verbatim>\<open>int\<close> accepts in base 10 or, failing
  that, in base 0.
\<close>

definition Operand_init :: "string \<Rightarrow> exn + Operand" where
  "Operand_init expression =
     (if expression \<in> set REGISTERS then Inr \<lparr>op_type = REGISTER, op_data = expression\<rparr>
      else if bytes_slice expression None (Some 1) = ''[''
              \<and> bytes_slice expression (Some (- 1)) None = '']''
        then Inr \<lparr>op_type = ADDRESS, op_data = bytes_slice expression (Some 1) (Some (- 1))\<rparr>
      else case py_int expression 10 of
        Inr _ \<Rightarrow> Inr \<lparr>op_type = IMMEDIATE, op_data = expression\<rparr>
      | Inl _ \<Rightarrow>
          (case py_int expression 0 of
             Inr _ \<Rightarrow> Inr \<lparr>op_type = IMMEDIATE, op_data = expression\<rparr>
           | Inl _ \<Rightarrow> Inl (ISAError BAD_INST ''invalid operand'')))"

text \<open>
  The register file is a dictionary from register names to integers. \<^verbatim>\<open>set_reg\<close> returns what
  the call does (returns or raises) together with the register file it leaves.
\<close>

type_synonym Registers = "string \<rightharpoonup> int"

definition Registers_init :: Registers where
  "Registers_init = fold (\<lambda>reg regs. regs(reg \<mapsto> 0)) REGISTERS Map.empty"

definition get_regs :: "Registers \<Rightarrow> Registers" where
  "get_regs regs = regs"

definition get_reg :: "Registers \<Rightarrow> string \<Rightarrow> exn + int" where
  "get_reg regs name =
     (if name \<notin> set REGISTERS \<or> name = PROGRAM_COUNTER_REG_NAME
      then Inl (ISAError BAD_INST ''invalid operand'')
      else case regs name of None \<Rightarrow> Inl KeyError | Some v \<Rightarrow> Inr v)"

definition set_reg :: "Registers \<Rightarrow> string \<Rightarrow> int \<Rightarrow> (exn + unit) \<times> Registers" where
  "set_reg regs name v =
     (if name \<notin> set REGISTERS \<or> name = PROGRAM_COUNTER_REG_NAME
      then (Inl (ISAError BAD_INST ''invalid operand''), regs)
      else (Inr (), regs(name \<mapsto> to_u32 v)))"

definition get_program_counter :: "Registers \<Rightarrow> exn + int" where
  "get_program_counter regs =
     (case regs PROGRAM_COUNTER_REG_NAME of None \<Rightarrow> Inl KeyError | Some v \<Rightarrow> Inr v)"

definition set_program_counter :: "Registers \<Rightarrow> int \<Rightarrow> Registers" where
  "set_program_counter regs new_pc = regs(PROGRAM_COUNTER_REG_NAME \<mapsto> to_u32 new_pc)"

text \<open>
  The address expression is matched against the pattern \<^verbatim>\<open>(.*)([+*-])(.*)\<close> by \<^verbatim>\<open>re.search\<close>.
  A dot matches every byte but a newline and the first group is greedy, so the match is found in
  the first line of the text that holds an operator: the first group is that line up to its last
  operator, the third is the rest of the line.
\<close>

definition is_operator :: "char \<Rightarrow> bool" where
  "is_operator c = (c = CHR ''+'' \<or> c = CHR ''*'' \<or> c = CHR ''-'')"

fun lines_of :: "string \<Rightarrow> string list" where
  "lines_of [] = [[]]"
| "lines_of (c # cs) =
     (if c = CHR 0x0A then [] # lines_of cs
      else (case lines_of cs of l # ls \<Rightarrow> (c # l) # ls | [] \<Rightarrow> [[c]]))"

definition re_search :: "string \<Rightarrow> (string \<times> char \<times> string) option" where
  "re_search data =
     (case filter (list_ex is_operator) (lines_of data) of
        [] \<Rightarrow> None
      | l # _ \<Rightarrow>
          (let after = rev (takeWhile (\<lambda>c. \<not> is_operator c) (rev l));
               k = length l - length after - 1
           in Some (take k l, l ! k, after)))"

definition Registers_eval :: "Registers \<Rightarrow> Operand \<Rightarrow> exn + int \<times> bool" where
  "Registers_eval regs operand =
     (case op_type operand of
        REGISTER \<Rightarrow>
          (case get_reg regs (op_data operand) of Inl e \<Rightarrow> Inl e | Inr v \<Rightarrow> Inr (v, False))
      | ADDRESS \<Rightarrow>
          (case re_search (op_data operand) of
             None \<Rightarrow>
               (case get_reg regs (strip (op_data operand)) of
                  Inl e \<Rightarrow> Inl e
                | Inr v \<Rightarrow> Inr (v, True))
           | Some (reg, opr, imm) \<Rightarrow>
               (case get_reg regs (strip reg) of
                  Inl e \<Rightarrow> Inl e
                | Inr reg_val \<Rightarrow>
                    (case py_int imm 0 of
                       Inl e \<Rightarrow> Inl e
                     | Inr imm_val \<Rightarrow>
                         Inr (if opr = CHR ''+'' then reg_val + imm_val
                              else if opr = CHR ''-'' then reg_val - imm_val
                              else reg_val * imm_val, True))))
      | IMMEDIATE \<Rightarrow>
          (case py_int (op_data operand) 0 of
             Inl e \<Rightarrow> Inl e
           | Inr v \<Rightarrow> Inr (to_u32 v, False)))"

section \<open>instruction.py\<close>

record Instruction =
  mnemonic :: string
  operands :: "Operand list"
  inst_len :: int

text \<open>\<^verbatim>\<open>bytes.split(sep)\<close> for a one-byte separator.\<close>

fun split_on :: "char \<Rightarrow> string \<Rightarrow> string list" where
  "split_on sep [] = [[]]"
| "split_on sep (c # cs) =
     (if c = sep then [] # split_on sep cs
      else (case split_on sep cs of l # ls \<Rightarrow> (c # l) # ls | [] \<Rightarrow> [[c]]))"

text \<open>The operands are built from left to right; the first that is refused raises.\<close>

fun build_operands :: "string list \<Rightarrow> exn + Operand list" where
  "build_operands [] = Inr []"
| "build_operands (t # ts) =
     (case Operand_init (strip t) of
        Inl e \<Rightarrow> Inl e
      | Inr operand \<Rightarrow>
          (case build_operands ts of Inl e \<Rightarrow> Inl e | Inr rest \<Rightarrow> Inr (operand # rest)))"

definition Instruction_init :: "string \<Rightarrow> exn + Instruction" where
  "Instruction_init line0 =
     (let n = int (length line0) + 1;
          line = strip (takeWhile (\<lambda>c. c \<noteq> CHR '';'') line0)
      in if line = [] then Inr \<lparr>mnemonic = ''NOP'', operands = [], inst_len = n\<rparr>
         else
           (let m = takeWhile (\<lambda>c. c \<noteq> INST_MNEMONIC_SEPARATOR) line;
                operand_text = drop 1 (dropWhile (\<lambda>c. c \<noteq> INST_MNEMONIC_SEPARATOR) line)
            in case (if operand_text \<noteq> [] then build_operands (split_on INST_OPERANDS_SEPARATOR operand_text)
                     else Inr []) of
                 Inl e \<Rightarrow> Inl e
               | Inr ops \<Rightarrow>
                   if m \<notin> set MNEMONIC then Inl (ISAError BAD_INST ''unknown mnemonic'')
                   else Inr \<lparr>mnemonic = m, operands = ops, inst_len = n\<rparr>))"

section \<open>file\_manager.py\<close>

text \<open>
  The virtual files are a dictionary from names to contents, in insertion order (the order in
  which they are listed). Names and contents are byte strings.
\<close>

type_synonym FileManager = "(string \<times> string) list"

definition insert_files :: "FileManager \<Rightarrow> (string \<times> string) list \<Rightarrow> FileManager" where
  "insert_files fm vfiles = fold (\<lambda>(name, content) m. AList.update name content m) vfiles fm"

definition FileManager_init :: "(string \<times> string) list \<Rightarrow> FileManager" where
  "FileManager_init vfiles = fold (\<lambda>(name, content) m. insert_files m [(name, content)]) vfiles []"

definition FileManager_getitem :: "FileManager \<Rightarrow> string \<Rightarrow> (int \<times> string) option" where
  "FileManager_getitem fm filename =
     (case map_of fm filename of None \<Rightarrow> None | Some file \<Rightarrow> Some (int (length file), file))"

definition list_files :: "FileManager \<Rightarrow> string list" where
  "list_files fm = map fst fm"

section \<open>engine.py\<close>

datatype EngineState = STOPPED | RUNNING | STEPPING | UNKNOWN_STATE

text \<open>
  What lies behind the engine's file descriptors, the network and the random number generator
  is the host's: the bytes waiting on the standard input, the bytes written to the standard
  output so far, the values the generator will give, and, for a URL, whether the download
  refuses it (a scheme of the blacklist, or a host that resolves to the loopback address) and
  what fetching it returns. Each of the last two may raise.
\<close>

record Host =
  stdin_bytes :: string
  stdout_bytes :: string
  random_bits :: "nat \<Rightarrow> int"
  random_count :: nat
  url_refused :: "string \<Rightarrow> exn + bool"
  url_content :: "string \<Rightarrow> exn + string"

text \<open>
  The engine. \<open>printed\<close> collects the errors that \<^verbatim>\<open>step\<close> prints before it raises them again.
  No event handler is registered (the emitter is created empty, and only a caller of the engine
  adds handlers), so triggering an event does nothing.
\<close>

record Engine =
  state :: EngineState
  exit_code :: int
  registers :: Registers
  memory :: MemoryManager
  files :: FileManager
  breakpoints :: "int list"
  host :: Host
  printed :: "exn list"

text \<open>
  A method of the engine takes the engine and gives what it returns or raises, and the
  engine as the call leaves it: what a method changed before it raised stays changed.
\<close>

type_synonym 'a action = "Engine \<Rightarrow> (exn + 'a) \<times> Engine"

definition returns :: "'a \<Rightarrow> 'a action" where
  "returns x = (\<lambda>e. (Inr x, e))"

definition raises :: "exn \<Rightarrow> 'a action" where
  "raises ex = (\<lambda>e. (Inl ex, e))"

definition and_then :: "'a action \<Rightarrow> ('a \<Rightarrow> 'b action) \<Rightarrow> 'b action" where
  "and_then m f = (\<lambda>e. case m e of (Inl ex, e') \<Rightarrow> (Inl ex, e') | (Inr x, e') \<Rightarrow> f x e')"

definition reads :: "(Engine \<Rightarrow> exn + 'a) \<Rightarrow> 'a action" where
  "reads f = (\<lambda>e. (f e, e))"

definition modifies :: "(Engine \<Rightarrow> Engine) \<Rightarrow> unit action" where
  "modifies f = (\<lambda>e. (Inr (), f e))"

definition on_registers :: "(Registers \<Rightarrow> (exn + 'a) \<times> Registers) \<Rightarrow> 'a action" where
  "on_registers f = (\<lambda>e. case f (registers e) of (r, regs) \<Rightarrow> (r, e\<lparr>registers := regs\<rparr>))"

definition on_memory :: "(MemoryManager \<Rightarrow> exn + MemoryManager) \<Rightarrow> unit action" where
  "on_memory f =
     (\<lambda>e. case f (memory e) of Inl ex \<Rightarrow> (Inl ex, e) | Inr mm \<Rightarrow> (Inr (), e\<lparr>memory := mm\<rparr>))"

definition stack_top :: int where
  "stack_top = stack_start + stack_size - 16"

text \<open>
  \<^verbatim>\<open>init\<close>: the program is copied over the start of the code segment's buffer (directly, with
  no permission check), the frame and stack pointers and the program counter are set. Seeding
  the generator from the clock leaves the host's values as unknown as they were.
\<close>

definition init :: "string \<Rightarrow> unit action" where
  "init program =
     and_then (modifies (\<lambda>e. e\<lparr>breakpoints := []\<rparr>)) (\<lambda>_.
     and_then (reads (\<lambda>e. case map_of (memory e) ''code'' of
                             None \<Rightarrow> Inl KeyError | Some segment \<Rightarrow> Inr segment)) (\<lambda>segment.
     and_then (reads (\<lambda>e. write_slice (seg_mem segment) (seg_size segment) None
                             (Some (int (length program))) program)) (\<lambda>m.
     and_then (modifies (\<lambda>e. e\<lparr>memory := AList.update ''code'' (segment\<lparr>seg_mem := m\<rparr>) (memory e)\<rparr>)) (\<lambda>_.
     and_then (on_registers (\<lambda>regs. set_reg regs BASE_POINTER_REG_NAME stack_top)) (\<lambda>_.
     and_then (on_registers (\<lambda>regs. set_reg regs STACK_POINTER_REG_NAME stack_top)) (\<lambda>_.
     modifies (\<lambda>e. e\<lparr>registers := set_program_counter (registers e) code_start\<rparr>)))))))"

text \<open>
  The constructor. Without a dictionary of virtual files the file manager's constructor fails
  on \<^verbatim>\<open>None\<close>, which the engine reports as \<^verbatim>\<open>BAD_CONFIG\<close>. The three segments are mapped, then
  \<^verbatim>\<open>init\<close> runs; if anything raises there is no engine.
\<close>

definition Engine_init :: "string \<Rightarrow> (string \<times> string) list option \<Rightarrow> Host \<Rightarrow> exn + Engine" where
  "Engine_init program vfiles h =
     (case vfiles of
        None \<Rightarrow> Inl (ISAError BAD_CONFIG ''vfiles'')
      | Some vf \<Rightarrow>
          (let e0 = \<lparr>state = STOPPED, exit_code = 0, registers = Registers_init, memory = [],
                     files = FileManager_init vf, breakpoints = [], host = h, printed = []\<rparr>
           in case and_then (on_memory (\<lambda>mm. map_segment mm ''code'' code_start code_size code_permission [])) (\<lambda>_.
                   and_then (on_memory (\<lambda>mm. map_segment mm ''bss'' bss_start bss_size bss_permission [])) (\<lambda>_.
                   and_then (on_memory (\<lambda>mm. map_segment mm ''stack'' stack_start stack_size stack_permission [])) (\<lambda>_.
                   init program))) e0 of
                (Inl ex, _) \<Rightarrow> Inl ex
              | (Inr _, e) \<Rightarrow> Inr e))"

definition Engine_start :: "Engine \<Rightarrow> Engine" where
  "Engine_start e = e\<lparr>state := RUNNING\<rparr>"

definition Engine_stop :: "Engine \<Rightarrow> Engine" where
  "Engine_stop e = e\<lparr>state := STOPPED\<rparr>"

text \<open>Fetch and decode: the line from the program counter up to the delimiter that is found.\<close>

definition parse_code_at :: "MemoryManager \<Rightarrow> int \<Rightarrow> exn + Instruction" where
  "parse_code_at mm pc =
     (case find_segment_by_addr mm pc of
        Inl ex \<Rightarrow> Inl ex
      | Inr segment \<Rightarrow>
          if \<not> executable segment then Inl (ISAError SEG_FAULT ''segment is not writable'')
          else
            (let line_end_pos = Segment_find segment INST_DELIMITER (Some pc) None
             in if line_end_pos = - 1
                then Inl (ISAError BAD_INST ''instruction ends unexpectedly'')
                else case Segment_getslice segment (Some pc) (Some line_end_pos) of
                  Inl ex \<Rightarrow> Inl ex
                | Inr line \<Rightarrow> Instruction_init line))"

definition Engine_eval :: "Operand \<Rightarrow> int action" where
  "Engine_eval operand =
     and_then (reads (\<lambda>e. Registers_eval (registers e) operand)) (\<lambda>(op_val, dereference).
       if dereference then reads (\<lambda>e. get32 (memory e) op_val) else returns op_val)"

definition stack_pop :: "int action" where
  "stack_pop =
     and_then (reads (\<lambda>e. get_reg (registers e) STACK_POINTER_REG_NAME)) (\<lambda>sp.
     and_then (reads (\<lambda>e. get32 (memory e) sp)) (\<lambda>v.
     and_then (on_registers (\<lambda>regs. set_reg regs STACK_POINTER_REG_NAME (sp + 4))) (\<lambda>_.
     returns v)))"

definition stack_push :: "int \<Rightarrow> unit action" where
  "stack_push v =
     and_then (reads (\<lambda>e. get_reg (registers e) STACK_POINTER_REG_NAME)) (\<lambda>sp.
     and_then (on_registers (\<lambda>regs. set_reg regs STACK_POINTER_REG_NAME (sp - 4))) (\<lambda>_.
     on_memory (\<lambda>mm. set32 mm (sp - 4) v)))"

definition jmp_to :: "Operand \<Rightarrow> unit action" where
  "jmp_to operand =
     and_then (Engine_eval operand) (\<lambda>new_pc.
     and_then (if op_type operand = IMMEDIATE
                  \<and> (bytes_slice (op_data operand) None (Some 1) = ''+''
                     \<or> bytes_slice (op_data operand) None (Some 1) = ''-'')
               then and_then (reads (\<lambda>e. get_program_counter (registers e))) (\<lambda>pc.
                      returns (new_pc + pc))
               else returns new_pc) (\<lambda>new_pc.
     if new_pc < 0 then raises (ISAError BAD_INST ''invalid PC'')
     else modifies (\<lambda>e. e\<lparr>registers := set_program_counter (registers e) new_pc\<rparr>)))"

definition assign_value :: "Operand \<Rightarrow> int \<Rightarrow> unit action" where
  "assign_value dest v =
     (case op_type dest of
        IMMEDIATE \<Rightarrow> raises (ISAError BAD_INST ''destination operand cannot be an immediate'')
      | REGISTER \<Rightarrow> on_registers (\<lambda>regs. set_reg regs (op_data dest) v)
      | ADDRESS \<Rightarrow>
          and_then (reads (\<lambda>e. Registers_eval (registers e) dest)) (\<lambda>(addr, _).
          on_memory (\<lambda>mm. set32 mm addr v)))"

subsection \<open>The instructions\<close>

text \<open>
  \<^verbatim>\<open>inst.operands[i]\<close> raises \<^verbatim>\<open>IndexError\<close> when the instruction has too few operands.
\<close>

definition operand :: "Instruction \<Rightarrow> nat \<Rightarrow> Operand action" where
  "operand inst i =
     (if i < length (operands inst) then returns (operands inst ! i) else raises IndexError)"

text \<open>
  The cases of \<^verbatim>\<open>resolve_inst\<close> repeat a few shapes, written once here. \<open>not_both_addresses\<close>
  is the test that opens \<^verbatim>\<open>MOV\<close>, \<^verbatim>\<open>AND\<close>, \<^verbatim>\<open>OR\<close>, \<^verbatim>\<open>XOR\<close>, \<^verbatim>\<open>ADD\<close> and \<^verbatim>\<open>SUB\<close>;
  \<open>count_not_address\<close> the one that opens the shifts and rotates; \<open>both_registers\<close> the one
  that opens the multiplications and divisions.
\<close>

definition not_both_addresses :: "Instruction \<Rightarrow> unit action" where
  "not_both_addresses inst =
     and_then (operand inst 0) (\<lambda>a.
       if op_type a = ADDRESS
       then and_then (operand inst 1) (\<lambda>b.
              if op_type b = ADDRESS
              then raises (ISAError BAD_INST ''memory-to-memory instruction is not supported'')
              else returns ())
       else returns ())"

definition count_not_address :: "string \<Rightarrow> Instruction \<Rightarrow> unit action" where
  "count_not_address msg inst =
     and_then (operand inst 1) (\<lambda>c.
       if op_type c = ADDRESS then raises (ISAError BAD_INST msg) else returns ())"

definition both_registers :: "string \<Rightarrow> Instruction \<Rightarrow> unit action" where
  "both_registers msg inst =
     and_then (operand inst 0) (\<lambda>a.
       if op_type a \<noteq> REGISTER then raises (ISAError BAD_INST msg)
       else and_then (operand inst 1) (\<lambda>b.
              if op_type b \<noteq> REGISTER then raises (ISAError BAD_INST msg) else returns ()))"

text \<open>
  \<^verbatim>\<open>assign_value(operands[0], f(eval(operands[0]), eval(operands[1])))\<close>: the destination is
  taken, both operands are evaluated from left to right, and the result is assigned.
\<close>

definition assign_binary :: "(int \<Rightarrow> int \<Rightarrow> exn + int) \<Rightarrow> Instruction \<Rightarrow> unit action" where
  "assign_binary f inst =
     and_then (operand inst 0) (\<lambda>dest.
     and_then (Engine_eval dest) (\<lambda>x.
     and_then (operand inst 1) (\<lambda>src.
     and_then (Engine_eval src) (\<lambda>y.
     and_then (reads (\<lambda>_. f x y)) (\<lambda>v.
     assign_value dest v)))))"

text \<open>
  The multiplications and divisions: both operands are evaluated (and, for the signed ones,
  reinterpreted by \<open>conv\<close>), the pair of results is computed, and its parts are assigned to
  the first and to the second operand.
\<close>

definition assign_pair ::
  "(int \<Rightarrow> int) \<Rightarrow> (int \<Rightarrow> int \<Rightarrow> exn + int \<times> int) \<Rightarrow> Instruction \<Rightarrow> unit action" where
  "assign_pair conv f inst =
     and_then (operand inst 0) (\<lambda>a.
     and_then (Engine_eval a) (\<lambda>x.
     and_then (operand inst 1) (\<lambda>b.
     and_then (Engine_eval b) (\<lambda>y.
     and_then (reads (\<lambda>_. f (conv x) (conv y))) (\<lambda>(lo, hi).
     and_then (assign_value a lo) (\<lambda>_.
     assign_value b hi))))))"

text \<open>The comparisons push \<^verbatim>\<open>int(f(eval(operands[0]), eval(operands[1])))\<close>.\<close>

definition push_compare :: "(int \<Rightarrow> int \<Rightarrow> bool) \<Rightarrow> Instruction \<Rightarrow> unit action" where
  "push_compare f inst =
     and_then (operand inst 0) (\<lambda>a.
     and_then (Engine_eval a) (\<lambda>x.
     and_then (operand inst 1) (\<lambda>b.
     and_then (Engine_eval b) (\<lambda>y.
     stack_push (if f x y then 1 else 0)))))"

subsection \<open>The system calls\<close>

fun join_lines :: "string list \<Rightarrow> string" where
  "join_lines [] = []"
| "join_lines [x] = x"
| "join_lines (x # y # ys) = x @ ''\<newline>'' @ join_lines (y # ys)"

definition syscall_input :: "int \<Rightarrow> int \<Rightarrow> int action" where
  "syscall_input buf n =
     and_then (reads (\<lambda>e. Inr (take (nat n) (stdin_bytes (host e))))) (\<lambda>data.
     and_then (modifies (\<lambda>e. e\<lparr>host := (host e)\<lparr>stdin_bytes := drop (nat n) (stdin_bytes (host e))\<rparr>\<rparr>)) (\<lambda>_.
     and_then (on_memory (\<lambda>mm. MemoryManager_setslice mm (Some buf) (Some (buf + int (length data))) data)) (\<lambda>_.
     returns (int (length data)))))"

definition syscall_output :: "int \<Rightarrow> int \<Rightarrow> int action" where
  "syscall_output buf n =
     and_then (reads (\<lambda>e. MemoryManager_getslice (memory e) (Some buf) (Some (buf + n)))) (\<lambda>data.
     and_then (modifies (\<lambda>e. e\<lparr>host := (host e)\<lparr>stdout_bytes := stdout_bytes (host e) @ data\<rparr>\<rparr>)) (\<lambda>_.
     returns (int (length data))))"

definition syscall_exit :: "int \<Rightarrow> int action" where
  "syscall_exit code =
     and_then (modifies Engine_stop) (\<lambda>_.
     and_then (modifies (\<lambda>e. e\<lparr>exit_code := code\<rparr>)) (\<lambda>_.
     returns code))"

definition syscall_readfile :: "int \<Rightarrow> int \<Rightarrow> int \<Rightarrow> int action" where
  "syscall_readfile filename buf n =
     and_then (reads (\<lambda>e. get_cstring (memory e) filename)) (\<lambda>filename.
     and_then (reads (\<lambda>e. Inr (FileManager_getitem (files e) filename))) (\<lambda>file.
       case file of
         Some (file_size, content) \<Rightarrow>
           (let read_len = min n file_size
            in and_then (on_memory (\<lambda>mm. MemoryManager_setslice mm (Some buf) (Some (buf + read_len))
                            (bytes_slice content None (Some read_len)))) (\<lambda>_.
               returns read_len))
       | None \<Rightarrow> returns (- 1)))"

definition syscall_list_files :: "int action" where
  "syscall_list_files =
     and_then (reads (\<lambda>e. Inr (list_files (files e)))) (\<lambda>names.
     and_then (modifies (\<lambda>e. e\<lparr>host := (host e)\<lparr>stdout_bytes :=
                 stdout_bytes (host e) @ join_lines names @ ''\<newline>''\<rparr>\<rparr>)) (\<lambda>_.
     returns (int (length names))))"

definition syscall_exec :: "int \<Rightarrow> int action" where
  "syscall_exec filename =
     and_then (reads (\<lambda>e. get_cstring (memory e) filename)) (\<lambda>command.
     and_then (reads (\<lambda>e. Inr (FileManager_getitem (files e) command))) (\<lambda>file.
     and_then (case file of Some (file_size, content) \<Rightarrow> init content | None \<Rightarrow> returns ()) (\<lambda>_.
     returns (- 1))))"

definition syscall_download :: "int \<Rightarrow> int \<Rightarrow> int action" where
  "syscall_download filename url =
     and_then (reads (\<lambda>e. get_cstring (memory e) filename)) (\<lambda>filename.
     and_then (reads (\<lambda>e. get_cstring (memory e) url)) (\<lambda>url.
     and_then (reads (\<lambda>e. url_refused (host e) url)) (\<lambda>refused.
       if refused then raises (ISAError BAD_ARGS ''invalid download url'')
       else
         and_then (reads (\<lambda>e. url_content (host e) url)) (\<lambda>download_data.
           if int (length download_data) > FILE_SIZE_LIMIT
           then raises (ISAError INVALID_SOURCE_FILE ''file size exceeds limit'')
           else and_then (modifies (\<lambda>e. e\<lparr>files := insert_files (files e) [(filename, download_data)]\<rparr>)) (\<lambda>_.
                returns (int (length download_data)))))))"

definition syscall_random :: "int action" where
  "syscall_random =
     and_then (reads (\<lambda>e. Inr (random_bits (host e) (random_count (host e))))) (\<lambda>r.
     and_then (modifies (\<lambda>e. e\<lparr>host := (host e)\<lparr>random_count := Suc (random_count (host e))\<rparr>\<rparr>)) (\<lambda>_.
     returns r))"

definition syscall :: "int \<Rightarrow> int \<Rightarrow> int \<Rightarrow> int \<Rightarrow> int action" where
  "syscall syscall_number arg1 arg2 arg3 =
     (if syscall_number = 0 then syscall_input arg1 arg2
      else if syscall_number = 1 then syscall_output arg1 arg2
      else if syscall_number = 2 then syscall_exit arg1
      else if syscall_number = 3 then syscall_readfile arg1 arg2 arg3
      else if syscall_number = 4 then syscall_list_files
      else if syscall_number = 5 then syscall_exec arg1
      else if syscall_number = 6 then syscall_download arg1 arg2
      else if syscall_number = 7 then syscall_random
      else raises (ISAError BAD_INST ''unknown syscall''))"

definition reg_item :: "Registers \<Rightarrow> string \<Rightarrow> exn + int" where
  "reg_item regs name = (case regs name of None \<Rightarrow> Inl KeyError | Some v \<Rightarrow> Inr v)"

subsection \<open>Dispatch, step and run\<close>

definition resolve_inst :: "Instruction \<Rightarrow> unit action" where
  "resolve_inst inst =
     (let m = mnemonic inst in
      if m = ''JMP'' then and_then (operand inst 0) jmp_to
      else if m = ''JZ'' then
        and_then stack_pop (\<lambda>condition_flag.
          if condition_flag = 0 then and_then (operand inst 0) jmp_to else returns ())
      else if m = ''JNZ'' then
        and_then stack_pop (\<lambda>condition_flag.
          if condition_flag \<noteq> 0 then and_then (operand inst 0) jmp_to else returns ())
      else if m = ''MOV'' then
        and_then (not_both_addresses inst) (\<lambda>_.
        and_then (operand inst 0) (\<lambda>dest.
        and_then (operand inst 1) (\<lambda>src.
        and_then (Engine_eval src) (\<lambda>v.
        assign_value dest v))))
      else if m = ''NOT'' then
        and_then (operand inst 0) (\<lambda>dest.
        and_then (Engine_eval dest) (\<lambda>v.
        assign_value dest (not32 v)))
      else if m = ''AND'' then
        and_then (not_both_addresses inst) (\<lambda>_. assign_binary (\<lambda>x y. Inr (and32 x y)) inst)
      else if m = ''OR'' then
        and_then (not_both_addresses inst) (\<lambda>_. assign_binary (\<lambda>x y. Inr (or32 x y)) inst)
      else if m = ''XOR'' then
        and_then (not_both_addresses inst) (\<lambda>_. assign_binary (\<lambda>x y. Inr (xor32 x y)) inst)
      else if m = ''SAL'' then
        and_then (count_not_address ''shift operand must be a register or a immediate'' inst)
          (\<lambda>_. assign_binary sal32 inst)
      else if m = ''SAR'' then
        and_then (count_not_address ''shift operand must be a register or a immediate'' inst)
          (\<lambda>_. assign_binary sar32 inst)
      else if m = ''SHL'' then
        and_then (count_not_address ''shift operand must be a register or a immediate'' inst)
          (\<lambda>_. assign_binary shl32 inst)
      else if m = ''SHR'' then
        and_then (count_not_address ''shift operand must be a register or a immediate'' inst)
          (\<lambda>_. assign_binary shr32 inst)
      else if m = ''ROL'' then
        and_then (count_not_address ''rotate operand must be a register or a immediate'' inst)
          (\<lambda>_. assign_binary rol32 inst)
      else if m = ''ROR'' then
        and_then (count_not_address ''rotate operand must be a register or a immediate'' inst)
          (\<lambda>_. assign_binary ror32 inst)
      else if m = ''ADD'' then
        and_then (not_both_addresses inst) (\<lambda>_. assign_binary (\<lambda>x y. Inr (add32 x y)) inst)
      else if m = ''SUB'' then
        and_then (not_both_addresses inst) (\<lambda>_. assign_binary (\<lambda>x y. Inr (sub32 x y)) inst)
      else if m = ''MULu'' then
        and_then (both_registers ''MULu source and destination operand must be a register'' inst)
          (\<lambda>_. assign_pair (\<lambda>x. x) (\<lambda>x y. Inr (mul32 x y)) inst)
      else if m = ''MUL'' then
        and_then (both_registers ''MUL source and destination operand must be a register'' inst)
          (\<lambda>_. assign_pair uint32_to_int32 (\<lambda>x y. Inr (mul32 x y)) inst)
      else if m = ''DIVu'' then
        and_then (both_registers ''DIVu source and destination operand must be a register'' inst)
          (\<lambda>_. assign_pair (\<lambda>x. x) div32 inst)
      else if m = ''DIV'' then
        and_then (both_registers ''DIV source and destination operand must be a register'' inst)
          (\<lambda>_. assign_pair uint32_to_int32 div32 inst)
      else if m = ''EQ'' then push_compare eq32 inst
      else if m = ''NEQ'' then push_compare neq32 inst
      else if m = ''GT'' then push_compare gt32 inst
      else if m = ''GTu'' then push_compare gtu32 inst
      else if m = ''GTE'' then push_compare gte32 inst
      else if m = ''GTEu'' then push_compare gteu32 inst
      else if m = ''LT'' then push_compare lt32 inst
      else if m = ''LTu'' then push_compare ltu32 inst
      else if m = ''LTE'' then push_compare lte32 inst
      else if m = ''LTEu'' then push_compare lteu32 inst
      else if m = ''CALL'' then
        and_then (reads (\<lambda>e. get_program_counter (registers e))) (\<lambda>pc.
        and_then (stack_push pc) (\<lambda>_.
        and_then (operand inst 0) (\<lambda>target.
        and_then (Engine_eval target) (\<lambda>v.
        modifies (\<lambda>e. e\<lparr>registers := set_program_counter (registers e) v\<rparr>)))))
      else if m = ''RET'' then
        and_then stack_pop (\<lambda>ret_addr.
        modifies (\<lambda>e. e\<lparr>registers := set_program_counter (registers e) ret_addr\<rparr>))
      else if m = ''SYSCALL'' then
        and_then (reads (\<lambda>e. Inr (get_regs (registers e)))) (\<lambda>reg_list.
        and_then (reads (\<lambda>_. reg_item reg_list ''R8'')) (\<lambda>r8.
        and_then (reads (\<lambda>_. reg_item reg_list ''R1'')) (\<lambda>r1.
        and_then (reads (\<lambda>_. reg_item reg_list ''R2'')) (\<lambda>r2.
        and_then (reads (\<lambda>_. reg_item reg_list ''R3'')) (\<lambda>r3.
        and_then (syscall r8 r1 r2 r3) (\<lambda>ret_value.
        on_registers (\<lambda>regs. set_reg regs ''R8'' ret_value)))))))
      else if m = ''PUSH'' then
        and_then (operand inst 0) (\<lambda>src.
        and_then (Engine_eval src) stack_push)
      else if m = ''POP'' then
        and_then stack_pop (\<lambda>v.
        and_then (operand inst 0) (\<lambda>dest.
        assign_value dest v))
      else if m = ''SWAP'' then
        and_then (reads (\<lambda>e. get_reg (registers e) STACK_POINTER_REG_NAME)) (\<lambda>sp.
        and_then (operand inst 0) (\<lambda>n.
        and_then (Engine_eval n) (\<lambda>k.
        (let target = sub32 sp (k * 4) in
         and_then (reads (\<lambda>e. get32 (memory e) sp)) (\<lambda>value1.
         and_then (reads (\<lambda>e. get32 (memory e) target)) (\<lambda>value2.
         and_then (on_memory (\<lambda>mm. set32 mm sp value2)) (\<lambda>_.
         on_memory (\<lambda>mm. set32 mm target value1))))))))
      else if m = ''COPY'' then
        and_then (reads (\<lambda>e. get_reg (registers e) STACK_POINTER_REG_NAME)) (\<lambda>sp.
        and_then (operand inst 0) (\<lambda>n.
        and_then (Engine_eval n) (\<lambda>k.
        and_then (reads (\<lambda>e. get32 (memory e) (sub32 sp (k * 4)))) stack_push)))
      else if m = ''NOP'' then returns ()
      else raises (ISAError BAD_INST ''unknown mnemonic''))"

text \<open>
  One step. Whatever is raised is turned into an \<^verbatim>\<open>ISAError\<close> (an exception of the runtime
  becomes \<^verbatim>\<open>UNKNOWN\<close>; its message is not modelled), printed, and raised again.
\<close>

definition step_body :: "unit action" where
  "step_body =
     (\<lambda>e. if state e \<noteq> RUNNING then raises (ISAError UNKNOWN ''program is not running'') e
          else
            and_then (modifies (\<lambda>e. e\<lparr>state := STEPPING\<rparr>)) (\<lambda>_.
            and_then (reads (\<lambda>e. get_program_counter (registers e))) (\<lambda>pc.
            and_then (reads (\<lambda>e. parse_code_at (memory e) pc)) (\<lambda>inst.
            and_then (modifies (\<lambda>e. e\<lparr>registers :=
                        set_program_counter (registers e) (pc + inst_len inst)\<rparr>)) (\<lambda>_.
            and_then (resolve_inst inst) (\<lambda>_.
            modifies (\<lambda>e. if state e = STEPPING then e\<lparr>state := RUNNING\<rparr> else e)))))) e)"

definition normalise :: "exn \<Rightarrow> exn" where
  "normalise ex = (case ex of ISAError c msg \<Rightarrow> ISAError c msg | _ \<Rightarrow> ISAError UNKNOWN ''exception'')"

definition step :: "unit action" where
  "step =
     (\<lambda>e. case step_body e of
             (Inr u, e') \<Rightarrow> (Inr u, e')
           | (Inl ex, e') \<Rightarrow> (Inl (normalise ex), e'\<lparr>printed := printed e' @ [normalise ex]\<rparr>))"

text \<open>
  The loop of \<^verbatim>\<open>run\<close>. It may run forever, and it waits forever at a breakpoint (nobody is there
  to send the signal to continue): not returning is the value \<open>None\<close>. An exception ends the
  loop with the engine stopped.
\<close>

partial_function (option) run_loop :: "Engine \<Rightarrow> Engine option" where
  "run_loop e =
     (case get_program_counter (registers e) of
        Inl ex \<Rightarrow> Some (Engine_stop e)
      | Inr pc \<Rightarrow>
          if pc \<in> set (breakpoints e) then None
          else (case state e of
                  STOPPED \<Rightarrow> Some e
                | STEPPING \<Rightarrow> run_loop e
                | UNKNOWN_STATE \<Rightarrow> run_loop e
                | RUNNING \<Rightarrow>
                    (case step e of
                       (Inl ex, e') \<Rightarrow> Some (Engine_stop e')
                     | (Inr u, e') \<Rightarrow> run_loop e')))"

definition run :: "Engine \<Rightarrow> Engine option" where
  "run e = run_loop (Engine_start e)"

section \<open>Notions used in the statements\<close>

text \<open>The byte string \<open>sub\<close> occurs in the buffer at index \<open>j\<close>.\<close>

definition occurs_at :: "buffer \<Rightarrow> string \<Rightarrow> nat \<Rightarrow> bool" where
  "occurs_at m sub j = (map m [j..<j + length sub] = sub)"

text \<open>
  A small memory for concrete runs: what \<^verbatim>\<open>MemoryManager().map(b"s", 16, 4, 7, b"abcd")\<close>
  builds, one readable and writable segment of four bytes at the addresses 16 to 19, none of
  them NUL or a newline.
\<close>

definition example_segment :: Segment where
  "example_segment =
     \<lparr>seg_name = ''s'', seg_start = 16, seg_size = 4,
      seg_mem = write_bytes (\<lambda>_. CHR 0x00) 0 ''abcd'', seg_permission = 7\<rparr>"

definition example_memory :: MemoryManager where
  "example_memory = [(''s'', example_segment)]"

text \<open>
  The engine as the constructor leaves it, for a program that fits the code segment: stopped,
  the three segments mapped in order, the program at the start of the code segment, the frame
  and stack pointers 16 bytes below the top of the stack, the program counter at the start of
  the code.
\<close>

definition boot_engine :: "string \<Rightarrow> (string \<times> string) list \<Rightarrow> Host \<Rightarrow> Engine" where
  "boot_engine program vf h =
     \<lparr>state = STOPPED, exit_code = 0,
      registers = Registers_init(''FP'' \<mapsto> 4294967280, ''SP'' \<mapsto> 4294967280, ''PC'' \<mapsto> 4194304),
      memory =
        [(''code'', \<lparr>seg_name = ''code'', seg_start = 4194304, seg_size = 1048576,
                    seg_mem = write_bytes (write_bytes (\<lambda>_. CHR 0x00) 0 []) 0 program,
                    seg_permission = 5\<rparr>),
         (''bss'', \<lparr>seg_name = ''bss'', seg_start = 5242880, seg_size = 65536,
                   seg_mem = write_bytes (\<lambda>_. CHR 0x00) 0 [], seg_permission = 6\<rparr>),
         (''stack'', \<lparr>seg_name = ''stack'', seg_start = 4293918720, seg_size = 1048576,
                     seg_mem = write_bytes (\<lambda>_. CHR 0x00) 0 [], seg_permission = 6\<rparr>)],
      files = FileManager_init vf, breakpoints = [], host = h, printed = []\<rparr>"

text \<open>
  What a run is observed by: the final state, the exit code, the registers \<^verbatim>\<open>R1\<close> and \<^verbatim>\<open>PC\<close>,
  and the errors printed.
\<close>

definition outcome :: "Engine \<Rightarrow> EngineState \<times> int \<times> int option \<times> int option \<times> exn list" where
  "outcome e = (state e, exit_code e, registers e ''R1'', registers e ''PC'', printed e)"

text \<open>The programs of the scenarios S1 and S4, each line ended by a newline.\<close>

definition S1_program :: string where
  "S1_program =
     ''MOV R1, 5\<newline>MOV R2, 7\<newline>ADD R1, R2\<newline>PUSH R1\<newline>POP R3\<newline>MOV R8, 2\<newline>MOV R1, R3\<newline>SYSCALL\<newline>''"

definition S4_program :: string where
  "S4_program =
     ''MOV R1, 0xFFFFFFFF\<newline>MOV R2, 1\<newline>LTu R1, R2\<newline>JZ +3\<newline>MOV R8, 2\<newline>MOV R1, 1\<newline>SYSCALL\<newline>MOV R8, 2\<newline>MOV R1, 0\<newline>SYSCALL\<newline>''"

text \<open>
  A host for concrete runs (nothing to read, every URL refused), and the virtual files the
  launcher passes.
\<close>

definition example_host :: Host where
  "example_host =
     \<lparr>stdin_bytes = [], stdout_bytes = [], random_bits = (\<lambda>_. 0), random_count = 0,
      url_refused = (\<lambda>_. Inr True), url_content = (\<lambda>_. Inl HostError)\<rparr>"

definition launcher_files :: "(string \<times> string) list" where
  "launcher_files = [(''flag.txt'', ''flag{1234}\<newline>'')]"

text \<open>Every register holds a 32-bit value.\<close>

definition regs_u32 :: "Registers \<Rightarrow> bool" where
  "regs_u32 regs = (\<forall>name. case regs name of None \<Rightarrow> True | Some v \<Rightarrow> 0 \<le> v \<and> v < 4294967296)"

text \<open>
  A jump operand is relative when it is an immediate whose text starts with a sign (the test
  \<^verbatim>\<open>jmp_to\<close> makes).
\<close>

definition relative_jump :: "Operand \<Rightarrow> bool" where
  "relative_jump opd =
     (op_type opd = IMMEDIATE
      \<and> (bytes_slice (op_data opd) None (Some 1) = ''+''
         \<or> bytes_slice (op_data opd) None (Some 1) = ''-''))"

text \<open>A method preserves a property of the engine: it holds afterwards, returned or raised.\<close>

definition preserves :: "(Engine \<Rightarrow> bool) \<Rightarrow> 'a action \<Rightarrow> bool" where
  "preserves P m = (\<forall>e. P e \<longrightarrow> P (snd (m e)))"

text \<open>
  An engine about to execute \<^verbatim>\<open>SYSCALL\<close> with \<^verbatim>\<open>R8 = 5\<close> (EXEC): the boot state of the empty
  program with the launcher's files, the name \<^verbatim>\<open>flag.txt\<close> written at the start of the bss
  segment, \<^verbatim>\<open>R1\<close> pointing at it, and \<^verbatim>\<open>R2\<close> to \<^verbatim>\<open>R7\<close> holding 2 to 7.
\<close>

definition exec_example :: Engine where
  "exec_example =
     (let e = snd (on_memory (\<lambda>mm. MemoryManager_setslice mm (Some 5242880) (Some 5242888) ''flag.txt'')
                     (boot_engine [] launcher_files example_host))
      in e\<lparr>registers := (registers e)(''R8'' \<mapsto> 5, ''R1'' \<mapsto> 5242880, ''R2'' \<mapsto> 2, ''R3'' \<mapsto> 3,
                ''R4'' \<mapsto> 4, ''R5'' \<mapsto> 5, ''R6'' \<mapsto> 6, ''R7'' \<mapsto> 7)\<rparr>)"

definition syscall_instruction :: Instruction where
  "syscall_instruction = \<lparr>mnemonic = ''SYSCALL'', operands = [], inst_len = 8\<rparr>"

section \<open>Facts about the arithmetic core\<close>

lemma UINT32_MAX_eq: "UINT32_MAX = 4294967295"
  by (simp add: UINT32_MAX_def)

lemma UINT32_MAX_mask: "UINT32_MAX = mask 32"
  by (simp add: UINT32_MAX_def mask_eq_exp_minus_1)

lemma INT32_MAX_eq: "INT32_MAX = 2147483647"
  by (simp add: INT32_MAX_def)

lemma to_u32_mod: "to_u32 i = i mod 2 ^ 32"
  by (simp add: to_u32_def UINT32_MAX_mask take_bit_eq_mod flip: take_bit_eq_mask)

lemma to_u32_range: "0 \<le> to_u32 i \<and> to_u32 i < 4294967296"
  by (simp add: to_u32_mod)




subsection \<open>Shift counts of 32 and more\<close>








section \<open>Facts about segments and the memory manager\<close>

declare find_from.simps [simp del]



lemma find_segment_by_addr_range:
  "find_segment_by_addr mm a = Inr s \<Longrightarrow> seg_start s \<le> a \<and> a < seg_end s"
  by (induction mm a rule: find_segment_by_addr.induct) (auto split: if_splits)

lemma write_bytes_outside: "i < lo \<or> lo + length data \<le> i \<Longrightarrow> write_bytes m lo data i = m i"
  by (auto simp add: write_bytes_def)

lemma example_memory_mapped: "map_segment [] ''s'' 16 4 7 ''abcd'' = Inr example_memory"
  by (simp add: map_segment_def Segment_init_def SegmentPermission_def write_slice_def
      slice_bounds_def clip_index_def example_segment_def example_memory_def)

subsection \<open>What the search of a buffer returns\<close>

lemma find_from_none:
  "(\<And>j. i \<le> j \<Longrightarrow> j + length sub \<le> e \<Longrightarrow> \<not> occurs_at m sub j) \<Longrightarrow> find_from m sub i e = - 1"
proof (induction m sub i e rule: find_from.induct)
  case (1 m sub i e)
  show ?case
  proof (cases "e < i + length sub")
    case True
    then show ?thesis by (simp add: find_from.simps)
  next
    case False
    then have n: "\<not> occurs_at m sub i" using "1.prems"[of i] by simp
    then have "find_from m sub (Suc i) e = - 1"
      using False "1.prems" by (intro "1.IH") (auto simp add: occurs_at_def)
    then show ?thesis using False n by (subst find_from.simps) (simp add: occurs_at_def)
  qed
qed

lemma find_from_first:
  "i \<le> j \<Longrightarrow> j + length sub \<le> e \<Longrightarrow> occurs_at m sub j
   \<Longrightarrow> (\<And>k. i \<le> k \<Longrightarrow> k < j \<Longrightarrow> \<not> occurs_at m sub k) \<Longrightarrow> find_from m sub i e = int j"
proof (induction m sub i e rule: find_from.induct)
  case (1 m sub i e)
  have ne: "\<not> e < i + length sub" using "1.prems" by simp
  show ?case
  proof (cases "occurs_at m sub i")
    case True
    then have "i = j" using "1.prems"(1) "1.prems"(4)[of i] by (cases "i < j") auto
    then show ?thesis using True ne by (subst find_from.simps) (simp add: occurs_at_def)
  next
    case False
    then have "i \<noteq> j" using "1.prems" by auto
    then have "find_from m sub (Suc i) e = int j"
      using ne False "1.prems" by (intro "1.IH") (auto simp add: occurs_at_def)
    then show ?thesis using ne False by (subst find_from.simps) (simp add: occurs_at_def)
  qed
qed

subsection \<open>\<^verbatim>\<open>Segment.find\<close> and \<^verbatim>\<open>get_cstring\<close>\<close>

text \<open>
  When the pattern does not occur, the buffer's search returns \<open>-1\<close> and \<^verbatim>\<open>Segment.find\<close> adds
  the segment's start to it.
\<close>

lemma Segment_find_absent:
  assumes "\<And>j. \<not> occurs_at (seg_mem s) sub j"
  shows "Segment_find s sub start endp = seg_start s - 1"
proof -
  have "bytes_find (seg_mem s) (seg_size s) sub a b = - 1" for a b
    unfolding bytes_find_def Let_def using find_from_none[of _ sub _ "seg_mem s"] assms by simp
  then show ?thesis by (simp add: Segment_find_def)
qed

lemma Segment_find_present:
  assumes "seg_start s \<le> a" "nat (a - seg_start s) \<le> j" "j + length sub \<le> seg_size s"
    "occurs_at (seg_mem s) sub j" "\<And>k. nat (a - seg_start s) \<le> k \<Longrightarrow> k < j \<Longrightarrow> \<not> occurs_at (seg_mem s) sub k"
  shows "Segment_find s sub (Some a) None = seg_start s + int j"
proof -
  have "find_from (seg_mem s) sub (nat (a - seg_start s)) (seg_size s) = int j"
    using assms by (intro find_from_first) auto
  moreover have "\<not> int (seg_size s) - (a - seg_start s) < int (length sub)" using assms by auto
  ultimately show ?thesis using assms(1) by (simp add: Segment_find_def bytes_find_def)
qed

lemma Segment_find_none_after:
  assumes "seg_start s \<le> a" "\<And>k. nat (a - seg_start s) \<le> k \<Longrightarrow> k + length sub \<le> seg_size s \<Longrightarrow> \<not> occurs_at (seg_mem s) sub k"
  shows "Segment_find s sub (Some a) None = seg_start s - 1"
proof -
  have "find_from (seg_mem s) sub (nat (a - seg_start s)) (seg_size s) = - 1"
    using assms by (intro find_from_none) auto
  then show ?thesis using assms(1) by (simp add: Segment_find_def bytes_find_def Let_def)
qed

lemma occurs_at_single: "occurs_at m [c] j = (m j = c)"
  by (simp add: occurs_at_def)

lemma get_cstring_no_nul:
  assumes f: "find_segment_by_addr mm a = Inr s" and r: "readable s" and p: "0 < seg_start s"
    and n: "\<And>k. nat (a - seg_start s) \<le> k \<Longrightarrow> k < seg_size s \<Longrightarrow> seg_mem s k \<noteq> CHR 0x00"
  shows "get_cstring mm a = Inr (map (seg_mem s) [nat (a - seg_start s)..<seg_size s - 1])"
proof -
  from f have ra: "seg_start s \<le> a" "a < seg_end s" using find_segment_by_addr_range by blast+
  have "Segment_find s [CHR 0x00] (Some a) None = seg_start s - 1"
    using ra n by (intro Segment_find_none_after) (auto simp add: occurs_at_single)
  moreover have "nat (int (seg_size s) - 1) = seg_size s - 1" by simp
  ultimately show ?thesis using f r p ra
    by (simp add: get_cstring_def Let_def Segment_getslice_def relative_def read_slice_def
        slice_bounds_def clip_index_def seg_end_def del: of_nat_diff)
qed

lemma get_cstring_nul:
  assumes f: "find_segment_by_addr mm a = Inr s" and r: "readable s" and p: "0 \<le> seg_start s"
    and j: "nat (a - seg_start s) \<le> j" "j < seg_size s" "seg_mem s j = CHR 0x00"
    and n: "\<And>k. nat (a - seg_start s) \<le> k \<Longrightarrow> k < j \<Longrightarrow> seg_mem s k \<noteq> CHR 0x00"
  shows "get_cstring mm a = Inr (map (seg_mem s) [nat (a - seg_start s)..<j])"
proof -
  from f have ra: "seg_start s \<le> a" "a < seg_end s" using find_segment_by_addr_range by blast+
  have "Segment_find s [CHR 0x00] (Some a) None = seg_start s + int j"
    using ra n j by (intro Segment_find_present) (auto simp add: occurs_at_single)
  then show ?thesis using f r p ra j
    by (simp add: get_cstring_def Let_def Segment_getslice_def relative_def read_slice_def
        slice_bounds_def clip_index_def seg_end_def)
qed


subsection \<open>Accesses stay inside the owning segment\<close>











lemma store_outside: "i \<notin> set idx \<Longrightarrow> store m idx data i = m i"
  unfolding store_def
proof (induction idx arbitrary: data m)
  case Nil
  then show ?case by simp
next
  case (Cons a idx)
  then show ?case by (cases data) auto
qed

lemma strided_one:
  "strided_indices n start stop 1 = (case slice_bounds n start stop of (lo, hi) \<Rightarrow> [lo..<hi])"
proof -
  have a: "adjust_index n 1 i = int (clip_index n i)" for i
    by (auto simp add: adjust_index_def clip_index_def)
  define lo where "lo = (case start of None \<Rightarrow> 0 | Some i \<Rightarrow> clip_index n i)"
  define hi where "hi = (case stop of None \<Rightarrow> n | Some i \<Rightarrow> clip_index n i)"
  have "strided_indices n start stop 1 = map (\<lambda>j. nat (int lo + int j)) [0..<nat (if lo < hi then int hi - int lo else 0)]"
    by (auto simp add: strided_indices_def Let_def a lo_def hi_def split: option.splits)
  also have "\<dots> = map (\<lambda>j. j + lo) [0..<hi - lo]"
  proof -
    have "nat (if lo < hi then int hi - int lo else 0) = hi - lo" by (simp del: of_nat_diff) linarith
    moreover have "(\<lambda>j. nat (int lo + int j)) = (\<lambda>j. j + lo)" by auto
    ultimately show ?thesis by simp
  qed
  also have "\<dots> = [lo..<hi]"
    by (cases "lo \<le> hi") (simp_all add: map_add_upt)
  finally show ?thesis by (simp add: slice_bounds_def lo_def hi_def)
qed

lemma store_upt: "store m [lo..<lo + length data] data = write_bytes m lo data"
proof (induction data arbitrary: lo m)
  case Nil
  show ?case by (rule ext) (auto simp add: store_def write_bytes_def)
next
  case (Cons c cs)
  have u: "[lo..<lo + length (c # cs)] = lo # [Suc lo..<Suc lo + length cs]"
    by (simp add: upt_conv_Cons del: upt_Suc)
  have "store m [lo..<lo + length (c # cs)] (c # cs)
        = store (m(lo := c)) [Suc lo..<Suc lo + length cs] cs"
    unfolding u by (simp add: store_def)
  also have "\<dots> = write_bytes (m(lo := c)) (Suc lo) cs" by (rule Cons.IH)
  also have "\<dots> = write_bytes m lo (c # cs)"
    by (rule ext) (auto simp add: write_bytes_def nth_Cons')
  finally show ?case .
qed

text \<open>With step 1 the stepped slice is the plain one.\<close>

lemma read_strided_one: "read_strided m n start stop 1 = Inr (read_slice m n start stop)"
  by (simp add: read_strided_def read_slice_def strided_one split: prod.splits)

lemma write_strided_one: "write_strided m n start stop 1 data = write_slice m n start stop data"
proof -
  obtain lo hi where b: "slice_bounds n start stop = (lo, hi)"
    by (cases "slice_bounds n start stop")
  show ?thesis
  proof (cases "length data = hi - lo")
    case True
    show ?thesis
    proof (cases "lo \<le> hi")
      case True
      with \<open>length data = hi - lo\<close> have "store m [lo..<hi] data = write_bytes m lo data"
        using store_upt[of m lo data] by simp
      with b \<open>length data = hi - lo\<close> show ?thesis
        by (simp add: write_strided_def write_slice_def strided_one)
    next
      case False
      with \<open>length data = hi - lo\<close> have "data = []" by simp
      moreover have "write_bytes m lo [] = m" by (rule ext) (auto simp add: write_bytes_def)
      ultimately show ?thesis using b False
        by (simp add: write_strided_def write_slice_def strided_one store_def)
    qed
  next
    case False
    with b show ?thesis
      by (simp add: write_strided_def write_slice_def strided_one)
  qed
qed




lemmas memory_eval =
  example_memory_def example_segment_def MemoryManager_getitem_def MemoryManager_setitem_def
  MemoryManager_getslice_def MemoryManager_setslice_def Segment_getitem_def Segment_setitem_def
  Segment_getslice_def Segment_setslice_def get32_def set32_def seg_end_def readable_def
  writable_def READ_def WRITE_def buffer_index_def relative_def read_slice_def write_slice_def
  slice_bounds_def clip_index_def uint32_to_bytes_def bytes_to_uint32_def to_u32_def
  UINT32_MAX_eq write_bytes_def upt_conv_Cons Let_def



text \<open>The same access as a write fails: the four bytes do not fit the two-byte slice.\<close>

lemma set32_past_end_example: "set32 example_memory 18 5 = Inl ValueError"
  by (simp add: memory_eval)

subsection \<open>The sentinel of \<^verbatim>\<open>Segment.find\<close>\<close>

text \<open>
  Claim C2 at a segment that does not start at address 0 and a pattern that does not occur:
  the example segment starts at 16 and holds no newline, and \<^verbatim>\<open>find\<close> returns 15 (the start
  minus one), not \<open>-1\<close>.
\<close>

theorem Segment_find_absent_example:
  "Segment_find example_segment ''\<newline>'' None None = 15"
  by (simp add: Segment_find_def bytes_find_def example_segment_def write_bytes_def
      find_from.simps)

text \<open>
  Claim C1 at a segment that does not start at address 0 and holds no NUL byte at or after the
  address: the example memory holds \<^verbatim>\<open>abcd\<close> at 16 to 19, and \<^verbatim>\<open>get_cstring(16)\<close> returns
  \<^verbatim>\<open>abc\<close>, without the last byte of the segment.
\<close>

theorem get_cstring_no_nul_example:
  "get_cstring example_memory 16 = Inr ''abc''"
  by (simp add: example_memory_def get_cstring_def seg_end_def Segment_find_def bytes_find_def
      example_segment_def write_bytes_def find_from.simps Segment_getslice_def readable_def
      READ_def relative_def read_slice_def slice_bounds_def clip_index_def upt_conv_Cons)

section \<open>Facts about the engine\<close>

text \<open>The definitions that a concrete run unfolds.\<close>

lemmas const_defs = PROGRAM_COUNTER_REG_NAME_def BASE_POINTER_REG_NAME_def
  STACK_POINTER_REG_NAME_def REGISTERS_def INST_DELIMITER_def INST_MNEMONIC_SEPARATOR_def
  INST_OPERANDS_SEPARATOR_def code_start_def code_size_def code_permission_def bss_start_def
  bss_size_def bss_permission_def stack_start_def stack_size_def stack_permission_def
  stack_top_def READ_def WRITE_def EXEC_def MNEMONIC_def

lemmas action_defs = returns_def raises_def and_then_def reads_def modifies_def
  on_registers_def on_memory_def

lemmas util_defs = add32_def sub32_def and32_def or32_def xor32_def not32_def mul32_def
  div32_def eq32_def neq32_def gt32_def gtu32_def gte32_def gteu32_def lt32_def ltu32_def
  lte32_def lteu32_def uint32_to_int32_def sal32_def sar32_def shl32_def shr32_def
  py_lshift_def py_rshift_def to_u32_def UINT32_MAX_eq INT32_MAX_eq

lemmas segment_defs = MemoryManager_getitem_def MemoryManager_setitem_def
  MemoryManager_getslice_def MemoryManager_setslice_def Segment_getitem_def Segment_setitem_def
  Segment_getslice_def Segment_setslice_def get32_def set32_def seg_end_def readable_def
  writable_def executable_def buffer_index_def relative_def read_slice_def write_slice_def
  slice_bounds_def clip_index_def uint32_to_bytes_def bytes_to_uint32_def write_bytes_def
  Segment_find_def bytes_find_def find_from.simps get_cstring_def char_of_def Let_def
  upt_conv_Cons

lemmas decode_defs = parse_code_at_def Instruction_init_def Operand_init_def py_int_def
  strip_def is_space_def digit_value_def has_prefix_def bytes_slice_def re_search_def
  is_operator_def

lemmas engine_defs = Engine_eval_def Registers_eval_def get_reg_def set_reg_def
  get_program_counter_def set_program_counter_def stack_pop_def stack_push_def jmp_to_def
  assign_value_def operand_def not_both_addresses_def count_not_address_def both_registers_def
  assign_binary_def assign_pair_def push_compare_def resolve_inst_def step_body_def step_def
  normalise_def syscall_def syscall_exit_def reg_item_def get_regs_def Engine_start_def
  Engine_stop_def Registers_init_def boot_engine_def outcome_def

lemmas run_defs = engine_defs decode_defs segment_defs util_defs action_defs const_defs

text \<open>The constructor builds the boot state, for every program that fits the code segment.\<close>

lemma Engine_init_boot:
  "length program \<le> 1048576 \<Longrightarrow> Engine_init program (Some vf) h = Inr (boot_engine program vf h)"
  by (simp add: Engine_init_def boot_engine_def init_def action_defs const_defs map_segment_def
      Segment_init_def SegmentPermission_def write_slice_def slice_bounds_def clip_index_def
      range_collide_def seg_end_def set_reg_def set_program_counter_def to_u32_def UINT32_MAX_eq)

text \<open>Without a dictionary of virtual files there is no engine.\<close>

lemma Engine_init_no_files: "Engine_init program None h = Inl (ISAError BAD_CONFIG ''vfiles'')"
  by (simp add: Engine_init_def)

subsection \<open>Scenario S1\<close>

text \<open>
  The run of S1, one iteration of the loop at a time: seven instructions, the \<^verbatim>\<open>SYSCALL\<close>, and
  the iteration that finds the engine stopped.
\<close>

lemma S1_run:
  "map_option outcome (run (boot_engine S1_program vf h))
   = Some (STOPPED, 12, Some 12, Some 4194379, [])"
  apply (simp add: run_def S1_program_def run_defs)
  apply (subst run_loop.simps, simp add: run_defs)
  apply (subst run_loop.simps, simp add: run_defs)
  apply (subst run_loop.simps, simp add: run_defs)
  apply (subst run_loop.simps, simp add: run_defs)
  apply (subst run_loop.simps, simp add: run_defs)
  apply (subst run_loop.simps, simp add: run_defs)
  apply (subst run_loop.simps, simp add: run_defs)
  apply (subst run_loop.simps, simp add: run_defs)
  apply (subst run_loop.simps, simp add: run_defs)
  done

text \<open>
  Claim C7. For every dictionary of virtual files and every host, the engine built for the S1
  program runs to the end: \<^verbatim>\<open>run\<close> returns with the engine stopped, the exit code 12 (which only
  the EXIT system call sets) and no error printed.
\<close>

theorem S1_exits_with_12:
  "\<exists>e0 e. Engine_init S1_program (Some vf) h = Inr e0 \<and> run e0 = Some e
          \<and> state e = STOPPED \<and> exit_code e = 12 \<and> printed e = []"
proof -
  have "Engine_init S1_program (Some vf) h = Inr (boot_engine S1_program vf h)"
    by (rule Engine_init_boot) (simp add: S1_program_def)
  moreover obtain e where "run (boot_engine S1_program vf h) = Some e"
    and "outcome e = (STOPPED, 12, Some 12, Some 4194379, [])"
    using S1_run[of vf h] by auto
  ultimately show ?thesis by (auto simp add: outcome_def)
qed

theorem S1_exits_with_12_witness:
  "\<exists>e0 e. Engine_init S1_program (Some launcher_files) example_host = Inr e0 \<and> run e0 = Some e
          \<and> state e = STOPPED \<and> exit_code e = 12 \<and> printed e = []"
  using S1_exits_with_12 [of launcher_files example_host] by simp

subsection \<open>Scenario S4\<close>

text \<open>
  The run of S4: three instructions, the \<^verbatim>\<open>JZ\<close> that jumps, and the step whose decoding fails.
  The compare pushes 0 and \<^verbatim>\<open>JZ +3\<close> adds 3 to the program counter, which already points behind
  the \<^verbatim>\<open>JZ\<close> line: the next line is read from its fourth byte, \<^verbatim>\<open> R8, 2\<close>.
\<close>

lemma S4_run:
  "map_option outcome (run (boot_engine S4_program vf h))
   = Some (STOPPED, 0, Some 4294967295, Some 4194353, [ISAError BAD_INST ''unknown mnemonic''])"
  apply (simp add: run_def S4_program_def run_defs)
  apply (subst run_loop.simps, simp add: run_defs)
  apply (subst run_loop.simps, simp add: run_defs)
  apply (subst run_loop.simps, simp add: run_defs)
  apply (subst run_loop.simps, simp add: run_defs)
  apply (subst run_loop.simps, simp add: run_defs)
  done

text \<open>
  Claim C4, as the code has it. For every dictionary of virtual files and every host, the
  engine built for the S4 program runs to the end with the exit code 0 it started with: the
  step after the jump raises \<^verbatim>\<open>BAD_INST\<close> (unknown mnemonic) at the program counter
  \<^verbatim>\<open>0x400031\<close>, 3 bytes behind the \<^verbatim>\<open>JZ\<close> line, \<^verbatim>\<open>run\<close> stops the engine, and \<^verbatim>\<open>R1\<close> still holds
  \<^verbatim>\<open>0xFFFFFFFF\<close>.
\<close>

theorem S4_stops_on_bad_instruction:
  "\<exists>e0 e. Engine_init S4_program (Some vf) h = Inr e0 \<and> run e0 = Some e
          \<and> state e = STOPPED \<and> exit_code e = 0
          \<and> registers e ''R1'' = Some 4294967295 \<and> registers e ''PC'' = Some 4194353
          \<and> printed e = [ISAError BAD_INST ''unknown mnemonic'']"
proof -
  have "Engine_init S4_program (Some vf) h = Inr (boot_engine S4_program vf h)"
    by (rule Engine_init_boot) (simp add: S4_program_def)
  moreover obtain e where "run (boot_engine S4_program vf h) = Some e"
    and "outcome e
         = (STOPPED, 0, Some 4294967295, Some 4194353, [ISAError BAD_INST ''unknown mnemonic''])"
    using S4_run[of vf h] by auto
  ultimately show ?thesis by (auto simp add: outcome_def)
qed

theorem S4_stops_on_bad_instruction_witness:
  "\<exists>e0 e. Engine_init S4_program (Some launcher_files) example_host = Inr e0 \<and> run e0 = Some e
          \<and> state e = STOPPED \<and> exit_code e = 0
          \<and> registers e ''R1'' = Some 4294967295 \<and> registers e ''PC'' = Some 4194353
          \<and> printed e = [ISAError BAD_INST ''unknown mnemonic'']"
  using S4_stops_on_bad_instruction [of launcher_files example_host] by simp

text \<open>
  Claim C4 as the specification states it (the second EXIT runs with \<^verbatim>\<open>R1 = 0\<close>) fails: with
  the launcher's files, the run of S4 ends with an error printed and \<^verbatim>\<open>R1\<close> not 0.
\<close>

theorem S4_second_exit_counterexample:
  "Engine_init S4_program (Some launcher_files) example_host
     = Inr (boot_engine S4_program launcher_files example_host)
   \<and> \<not> (\<exists>e. run (boot_engine S4_program launcher_files example_host) = Some e
            \<and> registers e ''R1'' = Some 0 \<and> printed e = [])"
proof -
  have "Engine_init S4_program (Some launcher_files) example_host
        = Inr (boot_engine S4_program launcher_files example_host)"
    by (rule Engine_init_boot) (simp add: S4_program_def)
  moreover have "\<not> (\<exists>e. run (boot_engine S4_program launcher_files example_host) = Some e
            \<and> registers e ''R1'' = Some 0 \<and> printed e = [])"
    using S4_run[of launcher_files example_host] by (auto simp add: outcome_def)
  ultimately show ?thesis by simp
qed

subsection \<open>Fetching a line that has no delimiter\<close>

text \<open>
  When no newline occurs from the program counter to the end of its segment (and the segment
  does not start at address 0), \<^verbatim>\<open>Segment.find\<close> returns the start minus one, the test against
  \<open>-1\<close> fails, and the bytes from the program counter up to the last byte of the segment
  (without it) are decoded as the instruction.
\<close>

lemma parse_code_at_no_delimiter:
  assumes f: "find_segment_by_addr mm pc = Inr s" and x: "executable s" and r: "readable s"
    and p: "0 < seg_start s"
    and n: "\<And>k. nat (pc - seg_start s) \<le> k \<Longrightarrow> k < seg_size s \<Longrightarrow> seg_mem s k \<noteq> CHR 0x0A"
  shows "parse_code_at mm pc
         = Instruction_init (map (seg_mem s) [nat (pc - seg_start s)..<seg_size s - 1])"
proof -
  from f have ra: "seg_start s \<le> pc" "pc < seg_end s" using find_segment_by_addr_range by blast+
  have "Segment_find s ''\<newline>'' (Some pc) None = seg_start s - 1"
    using ra n by (intro Segment_find_none_after) (auto simp add: occurs_at_single)
  moreover have "nat (int (seg_size s) - 1) = seg_size s - 1" by simp
  ultimately show ?thesis using f x r p ra
    by (simp add: parse_code_at_def INST_DELIMITER_def Let_def Segment_getslice_def relative_def
        read_slice_def slice_bounds_def clip_index_def seg_end_def del: of_nat_diff)
qed

text \<open>
  Claim C5 at the last byte of the code segment. In the engine built for the program
  \<^verbatim>\<open>JMP 0x4FFFFF\<close>, the byte at \<^verbatim>\<open>0x4FFFFF\<close> is NUL and it is the last of the segment, so no
  newline occurs from there to the end: \<^verbatim>\<open>Segment.find\<close> returns \<^verbatim>\<open>0x3FFFFF\<close>, and the fetch
  returns a \<^verbatim>\<open>NOP\<close> of length 1 instead of failing with \<^verbatim>\<open>BAD_INST\<close>.
\<close>

theorem fetch_without_delimiter_example:
  "parse_code_at (memory (boot_engine ''JMP 0x4FFFFF\<newline>'' vf h)) 5242879
   = Inr \<lparr>mnemonic = ''NOP'', operands = [], inst_len = 1\<rparr>
   \<and> Segment_find (snd (hd (memory (boot_engine ''JMP 0x4FFFFF\<newline>'' vf h)))) INST_DELIMITER
        (Some 5242879) None = 4194303"
  by (simp add: run_defs)

text \<open>
  The run of that program gets there: the jump, the \<^verbatim>\<open>NOP\<close> fetched at \<^verbatim>\<open>0x4FFFFF\<close>, and the
  segmentation fault of the next fetch, at the start of the bss segment.
\<close>

lemma fetch_without_delimiter_run:
  "map_option outcome (run (boot_engine ''JMP 0x4FFFFF\<newline>'' vf h))
   = Some (STOPPED, 0, Some 0, Some 5242880, [ISAError SEG_FAULT ''segment is not writable''])"
  apply (simp add: run_def run_defs)
  apply (subst run_loop.simps, simp add: run_defs)
  apply (subst run_loop.simps, simp add: run_defs)
  apply (subst run_loop.simps, simp add: run_defs)
  done

subsection \<open>The program counter and the generic register interface\<close>

text \<open>
  Claim C8. For every register file and every value, \<^verbatim>\<open>get_reg\<close> and \<^verbatim>\<open>set_reg\<close> with the name
  \<^verbatim>\<open>PC\<close> raise \<^verbatim>\<open>BAD_INST\<close>, and \<^verbatim>\<open>set_reg\<close> leaves the register file as it was; \<^verbatim>\<open>set_reg\<close>
  with any name leaves \<^verbatim>\<open>PC\<close> as it was; \<^verbatim>\<open>get_regs\<close> returns a copy. The program counter is read
  by \<^verbatim>\<open>get_program_counter\<close> and set by \<^verbatim>\<open>set_program_counter\<close>.
\<close>

theorem PC_only_through_its_own_calls:
  "get_reg regs PROGRAM_COUNTER_REG_NAME = Inl (ISAError BAD_INST ''invalid operand'')
   \<and> set_reg regs PROGRAM_COUNTER_REG_NAME v = (Inl (ISAError BAD_INST ''invalid operand''), regs)
   \<and> snd (set_reg regs name v) PROGRAM_COUNTER_REG_NAME = regs PROGRAM_COUNTER_REG_NAME
   \<and> get_regs regs = regs
   \<and> get_program_counter regs
       = (case regs PROGRAM_COUNTER_REG_NAME of None \<Rightarrow> Inl KeyError | Some pc \<Rightarrow> Inr pc)
   \<and> set_program_counter regs v PROGRAM_COUNTER_REG_NAME = Some (to_u32 v)"
  by (simp add: get_reg_def set_reg_def get_regs_def get_program_counter_def
      set_program_counter_def)

theorem PC_only_through_its_own_calls_witness:
  "get_reg Registers_init PROGRAM_COUNTER_REG_NAME = Inl (ISAError BAD_INST ''invalid operand'')
   \<and> set_reg Registers_init PROGRAM_COUNTER_REG_NAME 7
       = (Inl (ISAError BAD_INST ''invalid operand''), Registers_init)
   \<and> snd (set_reg Registers_init ''R1'' 7) PROGRAM_COUNTER_REG_NAME = Some 0
   \<and> snd (set_reg Registers_init ''R1'' 7) ''R1'' = Some 7
   \<and> set_program_counter Registers_init 4294967303 PROGRAM_COUNTER_REG_NAME = Some 7"
proof -
  have "Registers_init PROGRAM_COUNTER_REG_NAME = Some 0"
    by (simp add: Registers_init_def const_defs)
  moreover have "snd (set_reg Registers_init ''R1'' 7) ''R1'' = Some 7"
    by (simp add: set_reg_def const_defs to_u32_def UINT32_MAX_eq)
  moreover have "to_u32 4294967303 = 7"
    by (simp add: to_u32_def UINT32_MAX_eq)
  ultimately show ?thesis
    using PC_only_through_its_own_calls [of Registers_init 7 "''R1''"]
      PC_only_through_its_own_calls [of Registers_init 4294967303 "''R1''"]
    by simp
qed

subsection \<open>EXEC\<close>

lemma init_result:
  assumes "map_of (memory e) ''code'' = Some cs" "length content \<le> seg_size cs"
  shows "init content e = (Inr (),
      e\<lparr>breakpoints := [],
        memory := AList.update ''code'' (cs\<lparr>seg_mem := write_bytes (seg_mem cs) 0 content\<rparr>) (memory e),
        registers := (registers e)(''FP'' \<mapsto> 4294967280, ''SP'' \<mapsto> 4294967280, ''PC'' \<mapsto> 4194304)\<rparr>)"
  using assms
  by (simp add: init_def action_defs write_slice_def slice_bounds_def clip_index_def set_reg_def
      set_program_counter_def REGISTERS_def PROGRAM_COUNTER_REG_NAME_def BASE_POINTER_REG_NAME_def
      STACK_POINTER_REG_NAME_def stack_top_def stack_start_def stack_size_def code_start_def
      to_u32_def UINT32_MAX_eq)

text \<open>
  Claim C9. Let the engine execute \<^verbatim>\<open>SYSCALL\<close> with \<^verbatim>\<open>R8 = 5\<close>, \<^verbatim>\<open>R1\<close> the address of a C string
  that names an existing file whose content fits the code segment. Then the instruction
  completes, \<^verbatim>\<open>R1\<close> to \<^verbatim>\<open>R7\<close> hold what they held before, \<^verbatim>\<open>PC\<close> is the start of the code segment,
  \<^verbatim>\<open>SP\<close> and \<^verbatim>\<open>FP\<close> are the top of the stack minus \<^verbatim>\<open>0x10\<close>, and \<^verbatim>\<open>R8\<close> is \<^verbatim>\<open>0xFFFFFFFF\<close> (the
  \<open>-1\<close> that EXEC returns, written back).
\<close>

theorem exec_keeps_general_registers:
  assumes "mnemonic inst = ''SYSCALL''"
    and "registers e ''R8'' = Some 5" and "registers e ''R1'' = Some a"
    and "registers e ''R2'' = Some b" and "registers e ''R3'' = Some c"
    and "get_cstring (memory e) a = Inr name" and "map_of (files e) name = Some content"
    and "map_of (memory e) ''code'' = Some cs" and "length content \<le> seg_size cs"
  shows "\<exists>e'. resolve_inst inst e = (Inr (), e')
     \<and> list_all (\<lambda>r. registers e' r = registers e r)
          [''R1'', ''R2'', ''R3'', ''R4'', ''R5'', ''R6'', ''R7'']
     \<and> registers e' ''PC'' = Some code_start
     \<and> registers e' ''SP'' = Some (stack_start + stack_size - 16)
     \<and> registers e' ''FP'' = Some (stack_start + stack_size - 16)
     \<and> registers e' ''R8'' = Some 4294967295"
proof -
  have "syscall 5 a b c e = (Inr (- 1),
      e\<lparr>breakpoints := [],
        memory := AList.update ''code'' (cs\<lparr>seg_mem := write_bytes (seg_mem cs) 0 content\<rparr>) (memory e),
        registers := (registers e)(''FP'' \<mapsto> 4294967280, ''SP'' \<mapsto> 4294967280, ''PC'' \<mapsto> 4194304)\<rparr>)"
    using assms(6,7) init_result[OF assms(8,9)]
    by (simp add: syscall_def syscall_exec_def action_defs FileManager_getitem_def)
  then show ?thesis using assms(1-5)
    by (simp add: resolve_inst_def action_defs get_regs_def reg_item_def set_reg_def REGISTERS_def
        PROGRAM_COUNTER_REG_NAME_def to_u32_def UINT32_MAX_eq code_start_def stack_start_def
        stack_size_def)
qed

theorem exec_keeps_general_registers_witness:
  "mnemonic syscall_instruction = ''SYSCALL''
   \<and> registers exec_example ''R8'' = Some 5 \<and> registers exec_example ''R1'' = Some 5242880
   \<and> get_cstring (memory exec_example) 5242880 = Inr ''flag.txt''
   \<and> map_of (files exec_example) ''flag.txt'' = Some ''flag{1234}\<newline>''
   \<and> (\<exists>e'. resolve_inst syscall_instruction exec_example = (Inr (), e')
        \<and> registers e' ''R1'' = Some 5242880 \<and> registers e' ''R2'' = Some 2
        \<and> registers e' ''R3'' = Some 3 \<and> registers e' ''R4'' = Some 4
        \<and> registers e' ''R5'' = Some 5 \<and> registers e' ''R6'' = Some 6
        \<and> registers e' ''R7'' = Some 7 \<and> registers e' ''PC'' = Some 4194304
        \<and> registers e' ''SP'' = Some 4294967280 \<and> registers e' ''FP'' = Some 4294967280
        \<and> registers e' ''R8'' = Some 4294967295)"
proof -
  let ?cs = "\<lparr>seg_name = ''code'', seg_start = 4194304, seg_size = 1048576,
              seg_mem = write_bytes (write_bytes (\<lambda>_. CHR 0x00) 0 []) 0 [], seg_permission = 5\<rparr>"
  have h1: "mnemonic syscall_instruction = ''SYSCALL''"
    by (simp add: syscall_instruction_def)
  have h2: "registers exec_example ''R8'' = Some 5" "registers exec_example ''R1'' = Some 5242880"
    "registers exec_example ''R2'' = Some 2" "registers exec_example ''R3'' = Some 3"
    by (simp_all add: exec_example_def Let_def)
  have h3: "get_cstring (memory exec_example) 5242880 = Inr ''flag.txt''"
    by (simp add: exec_example_def launcher_files_def run_defs)
  have h4: "map_of (files exec_example) ''flag.txt'' = Some ''flag{1234}\<newline>''"
    by (simp add: exec_example_def launcher_files_def run_defs FileManager_init_def
        insert_files_def)
  have h5: "map_of (memory exec_example) ''code'' = Some ?cs"
    by (simp add: exec_example_def Let_def boot_engine_def on_memory_def
        MemoryManager_setslice_def seg_end_def Segment_setslice_def writable_def WRITE_def
        relative_def write_slice_def slice_bounds_def clip_index_def)
  have h6: "length ''flag{1234}\<newline>'' \<le> seg_size ?cs" by simp
  have r: "registers exec_example ''R4'' = Some 4" "registers exec_example ''R5'' = Some 5"
    "registers exec_example ''R6'' = Some 6" "registers exec_example ''R7'' = Some 7"
    by (simp_all add: exec_example_def Let_def)
  from exec_keeps_general_registers[OF h1 h2 h3 h4 h5 h6] h1 h2 h3 h4 r
  show ?thesis by (auto simp add: const_defs)
qed

subsection \<open>The target of a jump is never negative\<close>

lemma of_char_int_nonneg: "0 \<le> (of_char c :: int)"
proof -
  have "(of_char c :: int) = int (of_char c)" by (simp only: of_nat_of_char)
  then show ?thesis by simp
qed

lemma bytes_to_uint32_nonneg: "0 \<le> bytes_to_uint32 b"
  unfolding bytes_to_uint32_def by (induction b) (auto simp add: of_char_int_nonneg)

lemma py_int_error: "py_int s b = Inl ex \<Longrightarrow> ex = ValueError"
  by (auto simp add: py_int_def Let_def split: if_splits option.splits prod.splits)

lemma get_reg_error:
  "get_reg regs name = Inl ex \<Longrightarrow> ex = ISAError BAD_INST ''invalid operand'' \<or> ex = KeyError"
  by (auto simp add: get_reg_def split: if_splits option.splits)

lemma find_segment_by_addr_error:
  "find_segment_by_addr mm a = Inl ex \<Longrightarrow> ex = ISAError SEG_FAULT ''cannot access memory address''"
  by (induction mm a rule: find_segment_by_addr.induct) (auto split: if_splits)

lemma get32_error:
  "get32 mm a = Inl ex \<Longrightarrow> ex = ISAError SEG_FAULT ''cannot access memory address''
     \<or> ex = ISAError SEG_FAULT ''segment is not readable''"
  by (auto simp add: get32_def Let_def MemoryManager_getslice_def Segment_getslice_def
      dest: find_segment_by_addr_error split: sum.splits if_splits prod.splits)

lemma Registers_eval_error:
  "Registers_eval regs opd = Inl ex \<Longrightarrow>
     ex = ISAError BAD_INST ''invalid operand'' \<or> ex = KeyError \<or> ex = ValueError"
  by (auto simp add: Registers_eval_def dest: get_reg_error py_int_error
      split: OperandType.splits sum.splits option.splits prod.splits)

lemma Engine_eval_error:
  assumes "Engine_eval opd e = (Inl ex, e')"
  shows "ex \<noteq> ISAError BAD_INST ''invalid PC''"
proof (cases "Registers_eval (registers e) opd")
  case (Inl ex')
  with assms have "ex = ex'" by (simp add: Engine_eval_def and_then_def reads_def)
  with Inl show ?thesis using Registers_eval_error by fastforce
next
  case (Inr r)
  obtain x d where r: "r = (x, d)" by (cases r)
  with Inr assms have "d" "get32 (memory e) x = Inl ex"
    by (auto simp add: Engine_eval_def and_then_def reads_def returns_def split: if_splits)
  then show ?thesis using get32_error by fastforce
qed


lemma get32_nonneg: "get32 mm a = Inr v \<Longrightarrow> 0 \<le> v"
  by (auto simp add: get32_def Let_def bytes_to_uint32_nonneg split: sum.splits)

lemma regs_u32_lookup: "regs_u32 regs \<Longrightarrow> regs name = Some v \<Longrightarrow> 0 \<le> v \<and> v < 4294967296"
  unfolding regs_u32_def by (erule allE[of _ name]) simp

lemma regs_u32_update: "regs_u32 regs \<Longrightarrow> regs_u32 (regs(name \<mapsto> to_u32 v))"
  unfolding regs_u32_def using to_u32_range by (auto split: option.splits)

lemma regs_u32_init: "regs_u32 Registers_init"
  by (simp add: regs_u32_def Registers_init_def REGISTERS_def PROGRAM_COUNTER_REG_NAME_def
      BASE_POINTER_REG_NAME_def STACK_POINTER_REG_NAME_def)

lemma regs_u32_set_reg: "regs_u32 regs \<Longrightarrow> regs_u32 (snd (set_reg regs name v))"
  by (simp add: set_reg_def regs_u32_update)

lemma regs_u32_set_program_counter: "regs_u32 regs \<Longrightarrow> regs_u32 (set_program_counter regs v)"
  by (simp add: set_program_counter_def regs_u32_update)

lemma Registers_eval_direct_nonneg:
  "regs_u32 regs \<Longrightarrow> Registers_eval regs opd = Inr (v, False) \<Longrightarrow> 0 \<le> v"
  by (auto simp add: Registers_eval_def get_reg_def to_u32_range
      dest: regs_u32_lookup split: OperandType.splits sum.splits option.splits if_splits)

lemma Engine_eval_nonneg:
  assumes "regs_u32 (registers e)" "Engine_eval opd e = (Inr v, e')"
  shows "0 \<le> v \<and> e' = e"
proof (cases "Registers_eval (registers e) opd")
  case (Inl ex)
  with assms(2) show ?thesis by (simp add: Engine_eval_def and_then_def reads_def)
next
  case (Inr r)
  obtain x d where r: "r = (x, d)" by (cases r)
  show ?thesis
  proof (cases d)
    case True
    with Inr r assms(2) have "get32 (memory e) x = Inr v" "e' = e"
      by (auto simp add: Engine_eval_def and_then_def reads_def)
    then show ?thesis using get32_nonneg by blast
  next
    case False
    with Inr r assms(2) have "x = v" "e' = e"
      by (auto simp add: Engine_eval_def and_then_def reads_def returns_def)
    then show ?thesis using Registers_eval_direct_nonneg[OF assms(1), of opd v] Inr r False by simp
  qed
qed

text \<open>
  Claim C10. In every engine whose registers hold 32-bit values, and for every operand:
  \<^verbatim>\<open>Engine.eval\<close>, when it returns, returns a value that is not negative; \<^verbatim>\<open>jmp_to\<close> does not raise
  the \<^verbatim>\<open>BAD_INST\<close> error "invalid PC"; and when \<^verbatim>\<open>jmp_to\<close> returns, the program counter is the
  value of the operand (plus the old program counter for a relative jump) modulo \<open>2\<^sup>3\<^sup>2\<close>.
\<close>

theorem jmp_to_never_negative:
  assumes "regs_u32 (registers e)"
  shows "(\<forall>v e'. Engine_eval opd e = (Inr v, e') \<longrightarrow> 0 \<le> v)
    \<and> fst (jmp_to opd e) \<noteq> Inl (ISAError BAD_INST ''invalid PC'')
    \<and> (\<forall>e'. jmp_to opd e = (Inr (), e') \<longrightarrow>
          (\<exists>v pc. Engine_eval opd e = (Inr v, e) \<and> (relative_jump opd \<longrightarrow> registers e ''PC'' = Some pc)
             \<and> registers e' ''PC'' = Some ((if relative_jump opd then v + pc else v) mod 2 ^ 32)))"
proof (intro conjI allI impI)
  fix v e' assume "Engine_eval opd e = (Inr v, e')"
  then show "0 \<le> v" using Engine_eval_nonneg[OF assms] by blast
next
  show "fst (jmp_to opd e) \<noteq> Inl (ISAError BAD_INST ''invalid PC'')"
  proof (cases "Engine_eval opd e")
    case (Pair r e1)
    show ?thesis
    proof (cases r)
      case (Inl ex)
      have "ex \<noteq> ISAError BAD_INST ''invalid PC''"
        using Pair Inl Engine_eval_error by blast
      then show ?thesis using Pair Inl by (simp add: jmp_to_def and_then_def)
    next
      case (Inr v)
      with Pair have v: "0 \<le> v" "e1 = e" using Engine_eval_nonneg[OF assms] by blast+
      show ?thesis
      proof (cases "relative_jump opd")
        case True
        show ?thesis
        proof (cases "registers e ''PC''")
          case None
          then show ?thesis using Pair Inr v True
            by (simp add: jmp_to_def and_then_def reads_def returns_def relative_jump_def
                get_program_counter_def PROGRAM_COUNTER_REG_NAME_def)
        next
          case (Some pc)
          then have "0 \<le> pc" using regs_u32_lookup[OF assms] by blast
          then show ?thesis using Pair Inr v True Some
            by (simp add: jmp_to_def and_then_def reads_def returns_def relative_jump_def
                get_program_counter_def PROGRAM_COUNTER_REG_NAME_def modifies_def raises_def)
        qed
      next
        case False
        then show ?thesis using Pair Inr v
          by (auto simp add: jmp_to_def and_then_def reads_def returns_def relative_jump_def
              modifies_def raises_def)
      qed
    qed
  qed
next
  fix e' assume j: "jmp_to opd e = (Inr (), e')"
  show "\<exists>v pc. Engine_eval opd e = (Inr v, e) \<and> (relative_jump opd \<longrightarrow> registers e ''PC'' = Some pc)
             \<and> registers e' ''PC'' = Some ((if relative_jump opd then v + pc else v) mod 2 ^ 32)"
  proof (cases "Engine_eval opd e")
    case (Pair r e1)
    show ?thesis
    proof (cases r)
      case (Inl ex)
      with Pair j show ?thesis by (simp add: jmp_to_def and_then_def)
    next
      case (Inr v)
      with Pair have v: "0 \<le> v" "e1 = e" using Engine_eval_nonneg[OF assms] by blast+
      show ?thesis
      proof (cases "relative_jump opd")
        case True
        show ?thesis
        proof (cases "registers e ''PC''")
          case None
          then show ?thesis using Pair Inr v True j
            by (simp add: jmp_to_def and_then_def reads_def returns_def relative_jump_def
                get_program_counter_def PROGRAM_COUNTER_REG_NAME_def)
        next
          case (Some pc)
          then have "0 \<le> pc" using regs_u32_lookup[OF assms] by blast
          then have "registers e' ''PC'' = Some ((v + pc) mod 2 ^ 32)"
            using Pair Inr v True Some j
            by (auto simp add: jmp_to_def and_then_def reads_def returns_def relative_jump_def
                get_program_counter_def PROGRAM_COUNTER_REG_NAME_def modifies_def raises_def
                set_program_counter_def to_u32_mod)
          then show ?thesis using Pair Inr v True Some by auto
        qed
      next
        case False
        then have "registers e' ''PC'' = Some (v mod 2 ^ 32)"
          using Pair Inr v j
          by (auto simp add: jmp_to_def and_then_def reads_def returns_def relative_jump_def
              modifies_def raises_def set_program_counter_def to_u32_mod
              PROGRAM_COUNTER_REG_NAME_def)
        then show ?thesis using Pair Inr v False by auto
      qed
    qed
  qed
qed

subsection \<open>The registers hold 32-bit values throughout\<close>

lemma preservesI: "(\<And>e. P e \<Longrightarrow> P (snd (m e))) \<Longrightarrow> preserves P m"
  by (simp add: preserves_def)

lemma preserves_returns [intro!]: "preserves P (returns x)"
  by (simp add: preserves_def returns_def)

lemma preserves_raises [intro!]: "preserves P (raises x)"
  by (simp add: preserves_def raises_def)

lemma preserves_reads [intro!]: "preserves P (reads f)"
  by (simp add: preserves_def reads_def)

lemma preserves_and_then [intro!]:
  "preserves P m \<Longrightarrow> (\<And>x. preserves P (f x)) \<Longrightarrow> preserves P (and_then m f)"
  by (auto simp add: preserves_def and_then_def split: prod.splits sum.splits)

lemma preserves_if [intro!]:
  "preserves P a \<Longrightarrow> preserves P b \<Longrightarrow> preserves P (if c then a else b)"
  by simp

lemma preserves_case_prod [intro!]:
  "(\<And>a b. preserves P (f a b)) \<Longrightarrow> preserves P (case x of (a, b) \<Rightarrow> f a b)"
  by (cases x) simp

lemma preserves_case_option [intro!]:
  "preserves P a \<Longrightarrow> (\<And>x. preserves P (f x)) \<Longrightarrow> preserves P (case y of None \<Rightarrow> a | Some x \<Rightarrow> f x)"
  by (cases y) simp_all

lemma preserves_let [intro!]:
  "preserves P (f x) \<Longrightarrow> preserves P (Let x f)"
  by simp

lemma keeps_u32_on_memory [intro!]: "preserves (\<lambda>e. regs_u32 (registers e)) (on_memory f)"
  by (auto simp add: preserves_def on_memory_def split: sum.splits)

lemma keeps_u32_set_reg [intro!]: "preserves (\<lambda>e. regs_u32 (registers e)) (on_registers (\<lambda>regs. set_reg regs name v))"
  by (auto simp add: preserves_def on_registers_def split: prod.splits)
    (metis regs_u32_set_reg snd_conv)

lemma keeps_u32_set_pc [intro!]:
  "preserves (\<lambda>e. regs_u32 (registers e)) (modifies (\<lambda>e. e\<lparr>registers := set_program_counter (registers e) v\<rparr>))"
  by (simp add: preserves_def modifies_def regs_u32_set_program_counter)

lemma keeps_u32_modifies_other:
  "(\<And>e. registers (f e) = registers e) \<Longrightarrow> preserves (\<lambda>e. regs_u32 (registers e)) (modifies f)"
  by (simp add: preserves_def modifies_def)

lemma keeps_u32_Engine_eval [intro!]: "preserves (\<lambda>e. regs_u32 (registers e)) (Engine_eval opd)"
  unfolding Engine_eval_def by auto

lemma keeps_u32_operand [intro!]: "preserves (\<lambda>e. regs_u32 (registers e)) (operand inst i)"
  unfolding operand_def by auto

lemma keeps_u32_stack_pop [intro!]: "preserves (\<lambda>e. regs_u32 (registers e)) stack_pop"
  unfolding stack_pop_def by auto

lemma keeps_u32_stack_push [intro!]: "preserves (\<lambda>e. regs_u32 (registers e)) (stack_push v)"
  unfolding stack_push_def by auto

lemma keeps_u32_jmp_to [intro!]: "preserves (\<lambda>e. regs_u32 (registers e)) (jmp_to opd)"
  unfolding jmp_to_def by auto

lemma keeps_u32_assign_value [intro!]: "preserves (\<lambda>e. regs_u32 (registers e)) (assign_value opd v)"
  unfolding assign_value_def by (cases "op_type opd") auto

lemma keeps_u32_init [intro!]: "preserves (\<lambda>e. regs_u32 (registers e)) (init program)"
  unfolding init_def by (auto intro!: keeps_u32_modifies_other)

lemma keeps_u32_syscall [intro!]: "preserves (\<lambda>e. regs_u32 (registers e)) (syscall n a b c)"
  unfolding syscall_def syscall_input_def syscall_output_def syscall_exit_def
    syscall_readfile_def syscall_list_files_def syscall_exec_def syscall_download_def
    syscall_random_def
  by (auto intro!: keeps_u32_modifies_other simp add: Engine_stop_def)

lemma keeps_u32_resolve_inst: "preserves (\<lambda>e. regs_u32 (registers e)) (resolve_inst inst)"
  unfolding resolve_inst_def Let_def not_both_addresses_def count_not_address_def
    both_registers_def assign_binary_def assign_pair_def push_compare_def
  by (intro preserves_if preserves_and_then preserves_returns preserves_raises preserves_reads
      preserves_case_prod preserves_let keeps_u32_on_memory keeps_u32_set_reg keeps_u32_set_pc keeps_u32_Engine_eval keeps_u32_operand
      keeps_u32_stack_pop keeps_u32_stack_push keeps_u32_jmp_to keeps_u32_assign_value keeps_u32_syscall)

lemma keeps_u32_step: "preserves (\<lambda>e. regs_u32 (registers e)) step"
proof (rule preservesI)
  fix e :: Engine assume a: "regs_u32 (registers e)"
  have b: "preserves (\<lambda>e. regs_u32 (registers e)) step_body"
  proof (rule preservesI)
    fix e :: Engine assume a: "regs_u32 (registers e)"
    have "preserves (\<lambda>e. regs_u32 (registers e))
           (and_then (modifies (\<lambda>e. e\<lparr>state := STEPPING\<rparr>)) (\<lambda>_.
            and_then (reads (\<lambda>e. get_program_counter (registers e))) (\<lambda>pc.
            and_then (reads (\<lambda>e. parse_code_at (memory e) pc)) (\<lambda>inst.
            and_then (modifies (\<lambda>e. e\<lparr>registers :=
                        set_program_counter (registers e) (pc + inst_len inst)\<rparr>)) (\<lambda>_.
            and_then (resolve_inst inst) (\<lambda>_.
            modifies (\<lambda>e. if state e = STEPPING then e\<lparr>state := RUNNING\<rparr> else e)))))))"
      by (intro preserves_and_then preserves_reads keeps_u32_set_pc keeps_u32_resolve_inst
          keeps_u32_modifies_other) auto
    then show "regs_u32 (registers (snd (step_body e)))"
      using a by (auto simp add: step_body_def preserves_def raises_def)
  qed
  from a b have "regs_u32 (registers (snd (step_body e)))" by (simp add: preserves_def)
  then show "regs_u32 (registers (snd (step e)))"
    by (cases "step_body e") (auto simp add: step_def split: sum.splits)
qed

text \<open>
  The boot state has the property, and \<^verbatim>\<open>run\<close> keeps it: in every state a run goes through,
  the registers hold 32-bit values.
\<close>

lemma regs_u32_boot: "regs_u32 (registers (boot_engine program vf h))"
proof -
  have "regs_u32 (Registers_init(''FP'' \<mapsto> to_u32 4294967280, ''SP'' \<mapsto> to_u32 4294967280,
                  ''PC'' \<mapsto> to_u32 4194304))"
    by (intro regs_u32_update regs_u32_init)
  then show ?thesis by (simp add: boot_engine_def to_u32_def UINT32_MAX_eq)
qed

lemma regs_u32_run_loop:
  assumes "run_loop e = Some e'" and "regs_u32 (registers e)"
  shows "regs_u32 (registers e')"
proof -
  have "regs_u32 (registers e) \<longrightarrow> regs_u32 (registers e')"
  proof (rule run_loop.raw_induct[OF _ assms(1)])
    fix loop :: "Engine \<Rightarrow> Engine option" and e ea :: Engine
    assume IH: "\<And>x y. loop x = Some y \<Longrightarrow> regs_u32 (registers x) \<longrightarrow> regs_u32 (registers y)"
      and eq: "(case get_program_counter (registers e) of
                  Inl ex \<Rightarrow> Some (Engine_stop e)
                | Inr pc \<Rightarrow>
                    if pc \<in> set (breakpoints e) then None
                    else case state e of
                           STOPPED \<Rightarrow> Some e
                         | RUNNING \<Rightarrow>
                             (case step e of
                                (Inl ex, e') \<Rightarrow> Some (Engine_stop e')
                              | (Inr u, e') \<Rightarrow> loop e')
                         | _ \<Rightarrow> loop e) = Some ea"
    show "regs_u32 (registers e) \<longrightarrow> regs_u32 (registers ea)"
    proof
      assume a: "regs_u32 (registers e)"
      obtain r e1 where s: "step e = (r, e1)" by (cases "step e")
      have k: "regs_u32 (registers e1)"
        using keeps_u32_step a s by (auto simp add: preserves_def)
      show "regs_u32 (registers ea)"
      proof (cases "get_program_counter (registers e)")
        case (Inl ex)
        with eq a show ?thesis by (auto simp add: Engine_stop_def)
      next
        case (Inr pc)
        show ?thesis
        proof (cases "state e")
          case STOPPED
          with Inr eq a show ?thesis by (auto split: if_splits)
        next
          case RUNNING
          show ?thesis
          proof (cases r)
            case (Inl ex)
            with Inr RUNNING s eq k show ?thesis
              by (auto simp add: Engine_stop_def split: if_splits)
          next
            case r: (Inr u)
            with Inr RUNNING s eq have "loop e1 = Some ea" by (auto split: if_splits)
            then show ?thesis using IH k by blast
          qed
        next
          case STEPPING
          with Inr eq have "loop e = Some ea" by (auto split: if_splits)
          then show ?thesis using IH a by blast
        next
          case UNKNOWN_STATE
          with Inr eq have "loop e = Some ea" by (auto split: if_splits)
          then show ?thesis using IH a by blast
        qed
      qed
    qed
  qed
  with assms(2) show ?thesis by simp
qed

lemma regs_u32_run:
  "run (boot_engine program vf h) = Some e' \<Longrightarrow> regs_u32 (registers e')"
  using regs_u32_run_loop[of "Engine_start (boot_engine program vf h)" e'] regs_u32_boot[of program vf h]
  by (simp add: run_def Engine_start_def)

theorem jmp_to_never_negative_witness:
  "regs_u32 (registers (boot_engine S4_program launcher_files example_host))
   \<and> Engine_eval \<lparr>op_type = IMMEDIATE, op_data = ''-5''\<rparr>
        (boot_engine S4_program launcher_files example_host)
       = (Inr 4294967291, boot_engine S4_program launcher_files example_host)
   \<and> fst (jmp_to \<lparr>op_type = IMMEDIATE, op_data = ''-5''\<rparr>
            (boot_engine S4_program launcher_files example_host))
       = Inr ()
   \<and> registers (snd (jmp_to \<lparr>op_type = IMMEDIATE, op_data = ''-5''\<rparr>
            (boot_engine S4_program launcher_files example_host))) ''PC'' = Some 4194299
   \<and> fst (jmp_to \<lparr>op_type = IMMEDIATE, op_data = ''-5''\<rparr>
            (boot_engine S4_program launcher_files example_host))
       \<noteq> Inl (ISAError BAD_INST ''invalid PC'')"
proof -
  let ?e = "boot_engine S4_program launcher_files example_host"
  let ?o = "\<lparr>op_type = IMMEDIATE, op_data = ''-5''\<rparr>"
  have h: "regs_u32 (registers ?e)" by (rule regs_u32_boot)
  have v: "Engine_eval ?o ?e = (Inr 4294967291, ?e)"
    by (simp add: Engine_eval_def Registers_eval_def py_int_def is_space_def digit_value_def
        has_prefix_def to_u32_def UINT32_MAX_eq action_defs Let_def)
  have pc: "get_program_counter (registers ?e) = Inr 4194304"
    by (simp add: get_program_counter_def boot_engine_def PROGRAM_COUNTER_REG_NAME_def)
  have j: "jmp_to ?o ?e
           = (Inr (), ?e\<lparr>registers := set_program_counter (registers ?e) 4299161595\<rparr>)"
    by (simp add: jmp_to_def and_then_def v reads_def returns_def modifies_def pc
        bytes_slice_def slice_bounds_def clip_index_def)
  have j: "fst (jmp_to ?o ?e) = Inr ()"
    and p: "registers (snd (jmp_to ?o ?e)) ''PC'' = Some 4194299"
    by (simp_all add: j set_program_counter_def PROGRAM_COUNTER_REG_NAME_def to_u32_def
        UINT32_MAX_eq)
  from jmp_to_never_negative[OF h, of ?o] h v j p show ?thesis by simp
qed

end
